theory Spec2Isabelle
  imports Complex_Main
begin

section \<open>Data model of ai_server.py\<close>

text \<open>
  The server computes, once per tick, steering commands for a drone. The dictionaries of
  the request are modelled as records with the keys the code reads.

  Python floats are modelled as reals and the arithmetic is exact, with one exception:
  the timer of the search pattern. Its decrement \<open>timer -= dt\<close> is rounded to the nearest
  double, as is the literal 0.9 that it is reset to, because the tick on which the phase
  switches depends on that rounding. Everywhere else a statement is about exact real
  arithmetic; the doubles of the code agree with it up to rounding only. Overflow
  (\<open>math.exp\<close> raises for a \<open>dt\<close> below about -70 in the smoothing factors) and the sign of
  zero are not modelled.
\<close>

text \<open>A dictionary with keys x and z: a direction, or the centre of an obstacle.\<close>

record vec2 =
  vx :: real
  vz :: real

text \<open>A dictionary with keys x, y and z: a position, a velocity, or the push of the avoidance field.\<close>

record vec3 =
  px :: real
  py :: real
  pz :: real

record drone =
  position :: vec3
  velocity :: vec3
  yaw :: real
  maxTurn :: real
  targetAlt :: real
  speed :: real

record target =
  tgt_position :: vec3
  tgt_velocity :: vec3

record terrain =
  height_at_drone :: real
  ahead_max_height :: real

record obstacle =
  pos :: vec2
  radius :: real

text \<open>The only two strings the code ever stores under the key phase.\<close>

datatype phase = Hold | Transit

text \<open>The global dictionary \<open>search_state\<close>; \<open>seekDir\<close> is \<open>None\<close> until the first tick.\<close>

record search_state =
  inited :: bool
  centerYaw :: real
  side :: int
  timer :: real
  phase :: phase
  seekDir :: "vec2 option"

text \<open>The global dictionary \<open>control_state\<close>.\<close>

record control_state =
  last_yaw :: real
  last_throttle :: real
  last_pitch :: real

record server_state =
  search :: search_state
  control :: control_state

definition initial_search_state :: search_state where
  "initial_search_state =
     \<lparr>inited = False, centerYaw = 0, side = 1, timer = 0, phase = Hold, seekDir = None\<rparr>"

definition initial_control_state :: control_state where
  "initial_control_state = \<lparr>last_yaw = 0, last_throttle = 0, last_pitch = 0\<rparr>"

definition initial_state :: server_state where
  "initial_state = \<lparr>search = initial_search_state, control = initial_control_state\<rparr>"

text \<open>
  What \<open>data.get(key)\<close> can yield for a key whose value the code only tests for
  truthiness before use: the key is missing (or null), it holds a falsy value such as the
  empty object, or it holds a proper object.
\<close>

datatype 'a field = Missing | Falsy | Given 'a

text \<open>
  The fields of a non-empty request object. \<open>lockedTarget\<close> and \<open>dt\<close> are \<open>None\<close> when the
  key is missing or null; a missing \<open>obstacles\<close> key reads as the empty list.
\<close>

record request =
  req_drone :: "drone field"
  lockedTarget :: "target option"
  req_terrain :: "terrain field"
  obstacles :: "obstacle list"
  dt :: "real option"

text \<open>An error response: the HTTP status and the text under the key error.\<close>

datatype error = HttpError nat string

record controls =
  ctl_yaw :: real
  ctl_throttle :: real
  ctl_pitch :: real

record success =
  resp_controls :: controls
  searchState :: search_state
  droneStatus :: string

section \<open>Constants and helpers\<close>

text \<open>Rounding to the nearest integer, ties to the even one.\<close>

definition round_half_even :: "real \<Rightarrow> int" where
  "round_half_even y =
     (let f = \<lfloor>y\<rfloor>; r = y - of_int f
      in if r < 1 / 2 then f
         else if 1 / 2 < r then f + 1
         else if even f then f else f + 1)"

text \<open>
  The double nearest to a real: 53 significant bits, ties to even. The exponent is not
  bounded, so overflow and the loss of precision below \<open>2^-1022\<close> are not modelled (the
  difference of two doubles is exact there).
\<close>

definition round_double :: "real \<Rightarrow> real" where
  "round_double x =
     (if x = 0 then 0
      else (let q = 2 powr (of_int \<lfloor>log 2 \<bar>x\<bar>\<rfloor> - 52)
            in q * of_int (round_half_even (x / q))))"

text \<open>The literal 3.0 is a double; the literal 0.9 denotes the double nearest to 0.9.\<close>

definition SWEEP_HOLD :: real where "SWEEP_HOLD = 3.0"
definition SWEEP_TRANSIT :: real where "SWEEP_TRANSIT = round_double 0.9"
definition SWEEP_ANGLE_DEG :: real where "SWEEP_ANGLE_DEG = 40"
definition HALF :: real where "HALF = 900 * 0.48"

definition clamp :: "real \<Rightarrow> real \<Rightarrow> real \<Rightarrow> real" where
  "clamp v min_val max_val = max min_val (min v max_val)"

text \<open>\<open>math.radians\<close>.\<close>

definition radians :: "real \<Rightarrow> real" where
  "radians d = d * pi / 180"

text \<open>\<open>math.atan2(y, x)\<close> on reals: the angle of the point (x, y), in (-pi, pi], and 0 at the origin.\<close>

definition atan2 :: "real \<Rightarrow> real \<Rightarrow> real" where
  "atan2 y x =
     (if 0 < x then arctan (y / x)
      else if x < 0 then (if 0 \<le> y then arctan (y / x) + pi else arctan (y / x) - pi)
      else if 0 < y then pi / 2
      else if y < 0 then - (pi / 2)
      else 0)"

text \<open>\<open>math.copysign(1, v)\<close> on reals (the reals have one zero, which counts as positive).\<close>

definition copysign1 :: "real \<Rightarrow> real" where
  "copysign1 v = (if v < 0 then - 1 else 1)"

text \<open>
  \<open>wrap_angle\<close> and \<open>lerp_angle\<close> over exact reals. The doubles of the code round the sine,
  the cosine and the arc tangent, so there \<open>wrap_angle x\<close> is \<open>x\<close> on (-pi, pi] only up to
  rounding.
\<close>

definition wrap_angle :: "real \<Rightarrow> real" where
  "wrap_angle a = atan2 (sin a) (cos a)"

definition lerp_angle :: "real \<Rightarrow> real \<Rightarrow> real \<Rightarrow> real" where
  "lerp_angle a b t = a + wrap_angle (b - a) * clamp t 0 1"

section \<open>The avoidance field\<close>

text \<open>One iteration of the loop over the obstacles in \<open>steer_avoid\<close>.\<close>

definition obstacle_push :: "vec3 \<Rightarrow> vec3 \<Rightarrow> obstacle \<Rightarrow> vec3" where
  "obstacle_push ahead_pos push ob =
     (let d2 = (px ahead_pos - vx (pos ob))\<^sup>2 + (pz ahead_pos - vz (pos ob))\<^sup>2;
          r = radius ob + 1.8
      in if d2 < r * r then
           (let push_vec_x = px ahead_pos - vx (pos ob);
                push_vec_z = pz ahead_pos - vz (pos ob);
                dist = sqrt d2
            in if dist > 0.000001 then
                 push\<lparr>px := px push + (push_vec_x / dist) * (1 - dist / r),
                      pz := pz push + (push_vec_z / dist) * (1 - dist / r)\<rparr>
               else push)
         else push)"

definition steer_avoid :: "vec3 \<Rightarrow> vec2 \<Rightarrow> obstacle list \<Rightarrow> vec3" where
  "steer_avoid p vel obs =
     (let ahead_pos = \<lparr>px = px p + vx vel * 0.1, py = py p, pz = pz p + vz vel * 0.1\<rparr>;
          push = foldl (obstacle_push ahead_pos) \<lparr>px = 0, py = 0, pz = 0\<rparr> obs;
          margin = 28;
          dx = HALF - \<bar>px p\<bar>;
          dz = HALF - \<bar>pz p\<bar>;
          fx = (if dx < margin then copysign1 (px p) * (1 - dx / margin) else 0);
          fz = (if dz < margin then copysign1 (pz p) * (1 - dz / margin) else 0)
      in push\<lparr>px := px push - fx * 2.0, pz := pz push - fz * 2.0\<rparr>)"

section \<open>Direction finding\<close>

text \<open>Hunting mode: the intercept direction with a lead of 0.6 s.\<close>

definition hunt_raw_dir :: "drone \<Rightarrow> target \<Rightarrow> vec2" where
  "hunt_raw_dir d t =
     (let to_t_x = px (tgt_position t) - px (position d);
          to_t_z = pz (tgt_position t) - pz (position d);
          lead_x = px (tgt_velocity t) * 0.6;
          lead_z = pz (tgt_velocity t) * 0.6;
          final_dir_x = to_t_x + lead_x;
          final_dir_z = to_t_z + lead_z;
          len_sq = final_dir_x\<^sup>2 + final_dir_z\<^sup>2
      in if len_sq > 0.000001 then
           (let inv_len = 1 / sqrt len_sq
            in \<lparr>vx = final_dir_x * inv_len, vz = final_dir_z * inv_len\<rparr>)
         else \<lparr>vx = cos (yaw d), vz = sin (yaw d)\<rparr>)"

text \<open>Searching mode: lazy initialisation of the sweep.\<close>

definition search_init :: "search_state \<Rightarrow> drone \<Rightarrow> search_state" where
  "search_init ss d =
     (if \<not> inited ss then
        ss\<lparr>inited := True, centerYaw := yaw d, side := 1, timer := SWEEP_HOLD, phase := Hold\<rparr>
      else ss)"

text \<open>Searching mode: while in transit the centre of the sweep turns towards the origin.\<close>

definition search_recenter :: "search_state \<Rightarrow> drone \<Rightarrow> real \<Rightarrow> search_state" where
  "search_recenter ss d delta =
     (if phase ss = Transit then
        (let cyaw = atan2 (- pz (position d)) (- px (position d))
         in ss\<lparr>centerYaw := lerp_angle (centerYaw ss) cyaw (1 - exp (- delta * 0.25))\<rparr>)
      else ss)"

text \<open>
  Searching mode: the timer and the phase transition. \<open>timer -= dt\<close> stores the double
  nearest to the difference.
\<close>

definition search_timer :: "search_state \<Rightarrow> real \<Rightarrow> search_state" where
  "search_timer ss delta =
     (let ss1 = ss\<lparr>timer := round_double (timer ss - delta)\<rparr>
      in if timer ss1 \<le> 0 then
           (if phase ss1 = Hold then
              ss1\<lparr>side := side ss1 * (- 1), phase := Transit, timer := SWEEP_TRANSIT\<rparr>
            else ss1\<lparr>phase := Hold, timer := SWEEP_HOLD\<rparr>)
         else ss1)"

definition search_tick :: "search_state \<Rightarrow> drone \<Rightarrow> real \<Rightarrow> search_state" where
  "search_tick ss d delta = search_timer (search_recenter (search_init ss d) d delta) delta"

definition search_raw_dir :: "search_state \<Rightarrow> vec2" where
  "search_raw_dir ss =
     (let amp = radians SWEEP_ANGLE_DEG;
          yaw_t = wrap_angle (centerYaw ss + of_int (side ss) * amp)
      in \<lparr>vx = cos yaw_t, vz = sin yaw_t\<rparr>)"

text \<open>The block under the comment Direction Finding: the updated FSM and the raw direction.\<close>

definition find_direction :: "search_state \<Rightarrow> drone \<Rightarrow> target option \<Rightarrow> real \<Rightarrow> search_state \<times> vec2" where
  "find_direction ss d locked_target delta =
     (case locked_target of
        Some t \<Rightarrow> (ss\<lparr>inited := False\<rparr>, hunt_raw_dir d t)
      | None \<Rightarrow> (let ss1 = search_tick ss d delta in (ss1, search_raw_dir ss1)))"

section \<open>Steering and smoothing of the seek direction\<close>

text \<open>
  The directions are Python dictionaries that the code updates in place, and several names
  refer to the same dictionary. Within a tick they are therefore kept in a store: an
  address stands for a dictionary object, a name holds an address.
\<close>

type_synonym addr = nat
type_synonym store = "addr \<Rightarrow> vec2"

text \<open>The object under \<open>search_state['seekDir']\<close> when the smoothing starts.\<close>

definition a_state :: addr where "a_state = 0"

text \<open>The object made by \<open>search_state['seekDir'].copy()\<close>.\<close>

definition a_copy :: addr where "a_copy = 1"

text \<open>The object built for \<open>raw_dir\<close>.\<close>

definition a_raw :: addr where "a_raw = 2"

text \<open>
  The store at the start of the smoothing: the seek direction of the FSM (created from the
  yaw of the drone when it is still \<open>None\<close>) and the raw direction.
\<close>

definition initial_store :: "search_state \<Rightarrow> drone \<Rightarrow> vec2 \<Rightarrow> store" where
  "initial_store ss d raw_dir =
     ((\<lambda>_. \<lparr>vx = 0, vz = 0\<rparr>)
        (a_state := (case seekDir ss of
                       None \<Rightarrow> \<lparr>vx = cos (yaw d), vz = sin (yaw d)\<rparr>
                     | Some v \<Rightarrow> v),
         a_raw := raw_dir))"

text \<open>
  Snap or blend, then normalise in place. The result is the address that the name
  \<open>seek_dir\<close> holds, and the store.
\<close>

definition smooth_dir :: "bool \<Rightarrow> bool \<Rightarrow> real \<Rightarrow> store \<Rightarrow> addr \<times> store" where
  "smooth_dir is_hunting is_newly_hunting delta h =
     (let h1 = h(a_copy := h a_state);
          seek_dir = (if is_newly_hunting then a_raw else a_copy);
          h2 = (if is_newly_hunting then h1
                else (let smoothing_gain = (if is_hunting then 8.0 else 2.2);
                          a = 1 - exp (- delta * smoothing_gain)
                      in h1(a_copy :=
                            \<lparr>vx = vx (h1 a_copy) + (vx (h1 a_raw) - vx (h1 a_copy)) * a,
                             vz = vz (h1 a_copy) + (vz (h1 a_raw) - vz (h1 a_copy)) * a\<rparr>)));
          seek_len = sqrt ((vx (h2 seek_dir))\<^sup>2 + (vz (h2 seek_dir))\<^sup>2);
          h3 = (if seek_len > 0.000001 then
                  h2(seek_dir := \<lparr>vx = vx (h2 seek_dir) / seek_len,
                                  vz = vz (h2 seek_dir) / seek_len\<rparr>)
                else h2)
      in (seek_dir, h3))"

text \<open>
  The block under the comment Avoidance: the push is added to the object that
  \<open>desired_dir\<close> names, which is then normalised in place.
\<close>

definition avoid_dir :: "vec3 \<Rightarrow> obstacle list \<Rightarrow> addr \<Rightarrow> store \<Rightarrow> store" where
  "avoid_dir p obs desired_dir h =
     (let avoid_vec = steer_avoid p (h desired_dir) obs;
          h1 = h(desired_dir := \<lparr>vx = vx (h desired_dir) + px avoid_vec,
                                 vz = vz (h desired_dir) + pz avoid_vec\<rparr>);
          dir_len = sqrt ((vx (h1 desired_dir))\<^sup>2 + (vz (h1 desired_dir))\<^sup>2)
      in if dir_len > 0.000001 then
           h1(desired_dir := \<lparr>vx = vx (h1 desired_dir) / dir_len,
                               vz = vz (h1 desired_dir) / dir_len\<rparr>)
         else h1)"

text \<open>
  The value of \<open>seek_dir\<close> when the smoothing stage has normalised it, before the avoidance
  block runs.
\<close>

definition smoothed_seek_dir :: "search_state \<Rightarrow> drone \<Rightarrow> target option \<Rightarrow> real \<Rightarrow> vec2" where
  "smoothed_seek_dir ss d locked_target delta =
     (let is_hunting = (locked_target \<noteq> None);
          is_newly_hunting = (is_hunting \<and> inited ss);
          (ss1, raw_dir) = find_direction ss d locked_target delta;
          (seek_dir, h) = smooth_dir is_hunting is_newly_hunting delta (initial_store ss1 d raw_dir)
      in h seek_dir)"

text \<open>
  Everything from Direction Finding to the end of Avoidance. The assignments
  \<open>search_state['seekDir'] = seek_dir\<close> and \<open>desired_dir = seek_dir\<close> make the FSM and the
  name \<open>desired_dir\<close> hold the address of one object; the FSM holds what is at that
  address when the tick ends. The result is the FSM and the desired direction.
\<close>

definition steer :: "search_state \<Rightarrow> drone \<Rightarrow> target option \<Rightarrow> obstacle list \<Rightarrow> real \<Rightarrow> search_state \<times> vec2" where
  "steer ss d locked_target obs delta =
     (let is_hunting = (locked_target \<noteq> None);
          is_newly_hunting = (is_hunting \<and> inited ss);
          (ss1, raw_dir) = find_direction ss d locked_target delta;
          (seek_dir, h) = smooth_dir is_hunting is_newly_hunting delta (initial_store ss1 d raw_dir);
          seekDir_ref = seek_dir;
          desired_dir = seek_dir;
          h' = avoid_dir (position d) obs desired_dir h
      in (ss1\<lparr>seekDir := Some (h' seekDir_ref)\<rparr>, h' desired_dir))"

section \<open>Controls\<close>

text \<open>
  The block AI Controls Calculation: the raw yaw, throttle and pitch. The division by
  \<open>maxTurn\<close> raises ZeroDivisionError when \<open>maxTurn\<close> is 0.
\<close>

definition raw_controls :: "drone \<Rightarrow> terrain \<Rightarrow> real \<Rightarrow> vec2 \<Rightarrow> (real \<times> real \<times> real) option" where
  "raw_controls d ter delta desired_dir =
     (let desired_yaw = atan2 (vz desired_dir) (vx desired_dir);
          yaw_error = wrap_angle (desired_yaw - yaw d);
          commanded_yaw_rate = clamp (yaw_error / max delta 0.00001) (- maxTurn d) (maxTurn d)
      in if maxTurn d = 0 then None
         else
           (let hud_yaw_raw = commanded_yaw_rate / maxTurn d;
                ground_ref = max (height_at_drone ter) (ahead_max_height ter);
                target_y = ground_ref + targetAlt d;
                climb_err = target_y - py (position d);
                vertical_vel = py (velocity d);
                damping = 0.9 * vertical_vel;
                altitude_throttle = clamp ((climb_err - damping) * 0.2) (- 1) 1;
                fwd_x = cos (yaw d);
                fwd_z = sin (yaw d);
                forward_speed = px (velocity d) * fwd_x + pz (velocity d) * fwd_z;
                accel_err = speed d - forward_speed;
                power_command = clamp (accel_err * 0.1) (- 1) 1;
                hud_pitch_raw = power_command;
                hud_throttle_raw = clamp (altitude_throttle + power_command * 0.5) (- 1) 1
            in Some (hud_yaw_raw, hud_throttle_raw, hud_pitch_raw)))"

text \<open>The block Smoothing: the new output filter.\<close>

definition smooth_controls :: "control_state \<Rightarrow> real \<Rightarrow> real \<times> real \<times> real \<Rightarrow> control_state" where
  "smooth_controls cs delta raw =
     (case raw of (hud_yaw_raw, hud_throttle_raw, hud_pitch_raw) \<Rightarrow>
        (let smoothing_factor = 1.0 - exp (- delta * 10.0);
             smoothed_yaw = lerp_angle (last_yaw cs) hud_yaw_raw smoothing_factor;
             smoothed_throttle =
               last_throttle cs + (hud_throttle_raw - last_throttle cs) * smoothing_factor;
             smoothed_pitch = last_pitch cs + (hud_pitch_raw - last_pitch cs) * smoothing_factor
         in \<lparr>last_yaw = smoothed_yaw, last_throttle = smoothed_throttle,
             last_pitch = smoothed_pitch\<rparr>))"

section \<open>The request handler\<close>

text \<open>
  The two checks at the head of \<open>get_controls\<close>. The argument is the value that
  \<open>request.json\<close> returned: \<open>None\<close> stands for every falsy value (null, the empty object, an
  empty list, 0), \<open>Some r\<close> for a non-empty object with the fields \<open>r\<close>.
\<close>

definition validate :: "request option \<Rightarrow> error + (drone \<times> target option \<times> terrain \<times> obstacle list \<times> real)" where
  "validate data =
     (case data of
        None \<Rightarrow> Inl (HttpError 400 ''No data received'')
      | Some r \<Rightarrow>
          (case (req_drone r, req_terrain r, dt r) of
             (Given d, Given ter, Some delta) \<Rightarrow> Inr (d, lockedTarget r, ter, obstacles r, delta)
           | _ \<Rightarrow> Inl (HttpError 400 ''Incomplete data provided'')))"

text \<open>
  One tick, from the value that \<open>request.json\<close> returned: the new state of the server and
  the response. When the division by \<open>maxTurn\<close> raises, the handler answers 500; the FSM
  has been written by then, the output filter has not.
\<close>

definition get_controls :: "server_state \<Rightarrow> request option \<Rightarrow> server_state \<times> (error + success)" where
  "get_controls st data =
     (case validate data of
        Inl e \<Rightarrow> (st, Inl e)
      | Inr (d, locked_target, ter, obs, delta) \<Rightarrow>
          (let drone_status = (if locked_target \<noteq> None then ''HUNTING'' else ''SEARCHING'');
               (ss, desired_dir) = steer (search st) d locked_target obs delta
           in case raw_controls d ter delta desired_dir of
                None \<Rightarrow> (st\<lparr>search := ss\<rparr>, Inl (HttpError 500 ''Internal Server Error''))
              | Some raw \<Rightarrow>
                  (let cs = smooth_controls (control st) delta raw
                   in (\<lparr>search = ss, control = cs\<rparr>,
                       Inr \<lparr>resp_controls = \<lparr>ctl_yaw = last_yaw cs, ctl_throttle = last_throttle cs,
                                              ctl_pitch = last_pitch cs\<rparr>,
                            searchState = ss, droneStatus = drone_status\<rparr>))))"



text \<open>A run of ticks: the final state and the responses in order.\<close>

fun run :: "server_state \<Rightarrow> request option list \<Rightarrow> server_state \<times> (error + success) list" where
  "run st [] = (st, [])"
| "run st (r # rs) =
     (case get_controls st r of
        (st1, resp) \<Rightarrow> (case run st1 rs of (st2, resps) \<Rightarrow> (st2, resp # resps)))"

section \<open>Predicates and example inputs used in the statements\<close>

text \<open>The output filter holds three values between -1 and 1.\<close>

definition bounded_controls :: "control_state \<Rightarrow> bool" where
  "bounded_controls cs =
     (\<bar>last_yaw cs\<bar> \<le> 1 \<and> \<bar>last_throttle cs\<bar> \<le> 1 \<and> \<bar>last_pitch cs\<bar> \<le> 1)"

text \<open>The request carries a drone with a positive \<open>maxTurn\<close> and a positive \<open>dt\<close>.\<close>

definition positive_step :: "request option \<Rightarrow> bool" where
  "positive_step data =
     (case data of
        None \<Rightarrow> False
      | Some r \<Rightarrow>
          (case (req_drone r, dt r) of
             (Given d, Some delta) \<Rightarrow> 0 < delta \<and> 0 < maxTurn d
           | _ \<Rightarrow> False))"

text \<open>A response that is an error, or whose three controls are between -1 and 1.\<close>

definition response_bounded :: "error + success \<Rightarrow> bool" where
  "response_bounded resp =
     (case resp of
        Inl e \<Rightarrow> True
      | Inr s \<Rightarrow> \<bar>ctl_yaw (resp_controls s)\<bar> \<le> 1 \<and> \<bar>ctl_throttle (resp_controls s)\<bar> \<le> 1 \<and>
                 \<bar>ctl_pitch (resp_controls s)\<bar> \<le> 1)"

text \<open>A drone at the origin that looks along the x axis, and flat terrain.\<close>

definition drone_at_origin :: drone where
  "drone_at_origin =
     \<lparr>position = \<lparr>px = 0, py = 0, pz = 0\<rparr>, velocity = \<lparr>px = 0, py = 0, pz = 0\<rparr>,
      yaw = 0, maxTurn = 1, targetAlt = 10, speed = 5\<rparr>"

definition flat_terrain :: terrain where
  "flat_terrain = \<lparr>height_at_drone = 0, ahead_max_height = 0\<rparr>"

text \<open>A searching request: no locked target, no obstacles.\<close>

definition search_request :: "real \<Rightarrow> request option" where
  "search_request delta =
     Some \<lparr>req_drone = Given drone_at_origin, lockedTarget = None,
           req_terrain = Given flat_terrain, obstacles = [], dt = Some delta\<rparr>"

text \<open>A stationary target ten units ahead of \<open>drone_at_origin\<close>, and one on top of it.\<close>

definition target_ahead :: target where
  "target_ahead = \<lparr>tgt_position = \<lparr>px = 10, py = 0, pz = 0\<rparr>, tgt_velocity = \<lparr>px = 0, py = 0, pz = 0\<rparr>\<rparr>"

definition target_on_drone :: target where
  "target_on_drone = \<lparr>tgt_position = \<lparr>px = 0, py = 0, pz = 0\<rparr>, tgt_velocity = \<lparr>px = 0, py = 0, pz = 0\<rparr>\<rparr>"

text \<open>A hunting request: the target ahead, no obstacles.\<close>

definition hunt_request :: "real \<Rightarrow> request option" where
  "hunt_request delta =
     Some \<lparr>req_drone = Given drone_at_origin, lockedTarget = Some target_ahead,
           req_terrain = Given flat_terrain, obstacles = [], dt = Some delta\<rparr>"

text \<open>
  The words of the specification for the hunting direction: the vector from the drone to the
  target plus the velocity of the target times 0.6, in the (x, z) plane, and its
  normalisation.
\<close>

definition intercept_vector :: "drone \<Rightarrow> target \<Rightarrow> vec2" where
  "intercept_vector d t =
     \<lparr>vx = (px (tgt_position t) - px (position d)) + px (tgt_velocity t) * 0.6,
      vz = (pz (tgt_position t) - pz (position d)) + pz (tgt_velocity t) * 0.6\<rparr>"

definition length_sq :: "vec2 \<Rightarrow> real" where
  "length_sq v = (vx v)\<^sup>2 + (vz v)\<^sup>2"

definition normalize :: "vec2 \<Rightarrow> vec2" where
  "normalize v = \<lparr>vx = vx v / sqrt (length_sq v), vz = vz v / sqrt (length_sq v)\<rparr>"


text \<open>An FSM at the start of a hold.\<close>

definition holding_state :: server_state where
  "holding_state =
     \<lparr>search = \<lparr>inited = True, centerYaw = 0, side = 1, timer = 3, phase = Hold,
                 seekDir = Some \<lparr>vx = 1, vz = 0\<rparr>\<rparr>,
      control = initial_control_state\<rparr>"





text \<open>
  The desired direction that the avoidance block makes of a direction \<open>v\<close>: the block run
  on a store that holds \<open>v\<close>.
\<close>

definition avoided :: "vec3 \<Rightarrow> obstacle list \<Rightarrow> vec2 \<Rightarrow> vec2" where
  "avoided p obs v = avoid_dir p obs 0 (\<lambda>_. v) 0"

text \<open>
  A drone one unit from the edge of the arena on the z axis, a stationary target ten units
  ahead of it, and the hunting request made of them.
\<close>

definition drone_near_edge :: drone where
  "drone_near_edge =
     \<lparr>position = \<lparr>px = 0, py = 0, pz = 431\<rparr>, velocity = \<lparr>px = 0, py = 0, pz = 0\<rparr>,
      yaw = 0, maxTurn = 1, targetAlt = 10, speed = 5\<rparr>"

definition target_near_edge :: target where
  "target_near_edge =
     \<lparr>tgt_position = \<lparr>px = 10, py = 0, pz = 431\<rparr>, tgt_velocity = \<lparr>px = 0, py = 0, pz = 0\<rparr>\<rparr>"

definition edge_request :: "request option" where
  "edge_request =
     Some \<lparr>req_drone = Given drone_near_edge, lockedTarget = Some target_near_edge,
           req_terrain = Given flat_terrain, obstacles = [], dt = Some 0.1\<rparr>"

text \<open>
  The distance from the look-ahead point of \<open>steer_avoid\<close> to the centre of an obstacle, the
  horizontal length of a push, a position at which the boundary adds no force, and the
  angle of a direction (\<open>desired_yaw\<close> in the code).
\<close>

definition lookahead_dist :: "vec3 \<Rightarrow> vec2 \<Rightarrow> obstacle \<Rightarrow> real" where
  "lookahead_dist p v ob =
     sqrt ((px p + vx v * 0.1 - vx (pos ob))\<^sup>2 + (pz p + vz v * 0.1 - vz (pos ob))\<^sup>2)"

definition push_length :: "vec3 \<Rightarrow> real" where
  "push_length w = sqrt ((px w)\<^sup>2 + (pz w)\<^sup>2)"

definition clear_of_boundary :: "vec3 \<Rightarrow> bool" where
  "clear_of_boundary p = (28 \<le> HALF - \<bar>px p\<bar> \<and> 28 \<le> HALF - \<bar>pz p\<bar>)"

definition heading_angle :: "vec2 \<Rightarrow> real" where
  "heading_angle v = atan2 (vz v) (vx v)"

text \<open>
  Two obstacles of radius 1 on the x axis, straight ahead of \<open>drone_at_origin\<close>: 0.9 and
  0.5 from its look-ahead point when the desired direction is (1, 0). A third on the x
  axis at 0.12, which is 0.1 from the look-ahead point and off the line of the desired
  direction when that direction is (0.6, 0.8).
\<close>

definition obstacle_ahead :: obstacle where
  "obstacle_ahead = \<lparr>pos = \<lparr>vx = 1, vz = 0\<rparr>, radius = 1\<rparr>"

definition obstacle_nearer :: obstacle where
  "obstacle_nearer = \<lparr>pos = \<lparr>vx = 0.6, vz = 0\<rparr>, radius = 1\<rparr>"

definition obstacle_aside :: obstacle where
  "obstacle_aside = \<lparr>pos = \<lparr>vx = 3 / 25, vz = 0\<rparr>, radius = 1\<rparr>"

section \<open>Angles\<close>

lemma pi_gt_two: "2 < pi"
proof -
  have "sin (pi / 6) \<le> pi / 6" by (rule sin_x_le_x) simp
  then show ?thesis by (simp add: sin_30)
qed

lemma atan2_range: "- pi < atan2 y x \<and> atan2 y x \<le> pi"
proof -
  have b: "- (pi / 2) < arctan (y / x)" "arctan (y / x) < pi / 2"
    using arctan_lbound [of "y / x"] arctan_ubound [of "y / x"] by blast+
  consider "0 < x" | "x < 0" "0 \<le> y" | "x < 0" "y < 0" | "x = 0"
    by linarith
  then show ?thesis
  proof cases
    case 1
    have "atan2 y x = arctan (y / x)" using 1 by (simp add: atan2_def)
    with b pi_gt_zero show ?thesis by linarith
  next
    case 2
    then have "y / x \<le> 0" by (simp add: divide_nonneg_neg)
    then have "arctan (y / x) \<le> 0" by (simp add: arctan_le_zero_iff)
    moreover have "atan2 y x = arctan (y / x) + pi" using 2 by (simp add: atan2_def)
    ultimately show ?thesis using b pi_gt_zero by linarith
  next
    case 3
    then have "0 < y / x" by (simp add: divide_neg_neg)
    then have "0 < arctan (y / x)" by (simp add: zero_less_arctan_iff)
    moreover have "atan2 y x = arctan (y / x) - pi" using 3 by (simp add: atan2_def)
    ultimately show ?thesis using b pi_gt_zero by linarith
  next
    case 4
    then show ?thesis using pi_gt_zero by (auto simp: atan2_def intro: order_trans [of _ 0])
  qed
qed

text \<open>
  C8. For every real \<open>x\<close>, \<open>wrap_angle x\<close> lies in the half-open interval from \<open>-pi\<close>
  (excluded) to \<open>pi\<close> (included), and for every real \<open>a\<close> and integer \<open>k\<close>,
  \<open>wrap_angle a\<close> equals \<open>wrap_angle (a + 2 pi k)\<close>. This is exact over the reals.
\<close>

theorem wrap_angle_range_periodic:
  "- pi < wrap_angle x \<and> wrap_angle x \<le> pi \<and>
   wrap_angle a = wrap_angle (a + 2 * pi * of_int k)"
  using atan2_range [of "sin x" "cos x"] by (simp add: wrap_angle_def sin_add cos_add)

section \<open>The output filter over exact reals\<close>

lemma wrap_angle_id:
  assumes "- pi < a" and "a \<le> pi"
  shows "wrap_angle a = a"
proof -
  consider "- (pi / 2) < a" "a < pi / 2" | "a = pi / 2" | "a = - (pi / 2)"
    | "pi / 2 < a" | "a < - (pi / 2)"
    by linarith
  then show ?thesis
  proof cases
    case 1
    then have "0 < cos a" by (rule cos_gt_zero_pi)
    then have "wrap_angle a = arctan (tan a)"
      by (simp add: wrap_angle_def atan2_def tan_def)
    with 1 show ?thesis by (simp add: arctan_tan)
  next
    case 2
    have "wrap_angle (pi / 2) = pi / 2" by (simp add: wrap_angle_def atan2_def)
    then show ?thesis unfolding 2 .
  next
    case 3
    have "wrap_angle (- (pi / 2)) = - (pi / 2)" by (simp add: wrap_angle_def atan2_def)
    then show ?thesis unfolding 3 .
  next
    case 4
    have r: "- (pi / 2) < a - pi" "a - pi < pi / 2"
      using 4 assms pi_gt_zero by linarith+
    then have "0 < cos (a - pi)" by (rule cos_gt_zero_pi)
    then have c: "cos a < 0" by (simp add: cos_diff)
    have s: "0 \<le> sin a" using 4 assms by (intro sin_ge_zero) linarith+
    have "tan (a - pi) = tan a" using tan_periodic_pi [of "a - pi"] by simp
    then have "arctan (tan a) = a - pi" using r by (metis arctan_tan)
    with c s show ?thesis by (simp add: wrap_angle_def atan2_def tan_def)
  next
    case 5
    have r: "- (pi / 2) < a + pi" "a + pi < pi / 2"
      using 5 assms pi_gt_zero by linarith+
    then have "0 < cos (a + pi)" by (rule cos_gt_zero_pi)
    then have c: "cos a < 0" by (simp add: cos_add)
    have "0 < sin (a + pi)" using 5 assms by (intro sin_gt_zero) linarith+
    then have s: "sin a < 0" by (simp add: sin_add)
    have "arctan (tan a) = a + pi" using r tan_periodic_pi [of a] by (metis arctan_tan)
    with c s show ?thesis by (simp add: wrap_angle_def atan2_def tan_def)
  qed
qed


lemma clamp_bounds: "lo \<le> hi \<Longrightarrow> lo \<le> clamp v lo hi \<and> clamp v lo hi \<le> hi"
  by (simp add: clamp_def)

lemma clamp_abs_one: "\<bar>clamp v (- 1) 1\<bar> \<le> 1"
  by (simp add: clamp_def)

lemma clamp_ratio:
  assumes "0 < m"
  shows "\<bar>clamp v (- m) m / m\<bar> \<le> 1"
proof -
  have "- m \<le> clamp v (- m) m" "clamp v (- m) m \<le> m"
    using assms by (simp_all add: clamp_def)
  then have "\<bar>clamp v (- m) m\<bar> \<le> m" by linarith
  with assms show ?thesis by simp
qed

lemma raw_controls_bounded:
  assumes "0 < maxTurn d"
  shows "\<exists>y t p. raw_controls d ter delta dir = Some (y, t, p) \<and> \<bar>y\<bar> \<le> 1 \<and> \<bar>t\<bar> \<le> 1 \<and> \<bar>p\<bar> \<le> 1"
  using assms clamp_ratio [OF assms]
  by (simp add: raw_controls_def Let_def clamp_abs_one)

lemma blend_bounded:
  fixes l r f :: real
  assumes "\<bar>l\<bar> \<le> 1" "\<bar>r\<bar> \<le> 1" "0 \<le> f" "f \<le> 1"
  shows "\<bar>l + (r - l) * f\<bar> \<le> 1"
proof -
  have e: "l + (r - l) * f = (1 - f) * l + f * r" by (simp add: algebra_simps)
  have "\<bar>(1 - f) * l\<bar> \<le> 1 - f"
    using assms mult_left_mono [of "\<bar>l\<bar>" 1 "1 - f"] by (simp add: abs_mult)
  moreover have "\<bar>f * r\<bar> \<le> f"
    using assms mult_left_mono [of "\<bar>r\<bar>" 1 f] by (simp add: abs_mult)
  moreover have "\<bar>(1 - f) * l + f * r\<bar> \<le> \<bar>(1 - f) * l\<bar> + \<bar>f * r\<bar>"
    by (rule abs_triangle_ineq)
  ultimately have "\<bar>(1 - f) * l + f * r\<bar> \<le> 1" by linarith
  then show ?thesis by (simp only: e)
qed

lemma smoothing_factor_range:
  fixes delta k :: real
  assumes "0 < delta" "0 < k"
  shows "0 \<le> 1 - exp (- delta * k) \<and> 1 - exp (- delta * k) \<le> 1"
proof -
  have "exp (- delta * k) \<le> 1" using assms by simp
  moreover have "0 \<le> exp (- delta * k)" by simp
  ultimately show ?thesis by linarith
qed

lemma lerp_angle_blend:
  assumes "\<bar>l\<bar> \<le> 1" "\<bar>r\<bar> \<le> 1" "0 \<le> f" "f \<le> 1"
  shows "lerp_angle l r f = l + (r - l) * f"
proof -
  have "- pi < r - l" "r - l \<le> pi" using assms pi_gt_two by linarith+
  then have "wrap_angle (r - l) = r - l" by (rule wrap_angle_id)
  moreover have "clamp f 0 1 = f" using assms by (simp add: clamp_def)
  ultimately show ?thesis by (simp add: lerp_angle_def)
qed

lemma smooth_controls_bounded:
  assumes "bounded_controls cs" "0 < delta" "\<bar>y\<bar> \<le> 1" "\<bar>t\<bar> \<le> 1" "\<bar>p\<bar> \<le> 1"
  shows "bounded_controls (smooth_controls cs delta (y, t, p))"
proof -
  let ?f = "1 - exp (- delta * 10)"
  have f: "0 \<le> ?f" "?f \<le> 1"
    using smoothing_factor_range [of delta 10] assms by simp_all
  have b: "\<bar>last_yaw cs\<bar> \<le> 1" "\<bar>last_throttle cs\<bar> \<le> 1" "\<bar>last_pitch cs\<bar> \<le> 1"
    using assms by (simp_all add: bounded_controls_def)
  have "lerp_angle (last_yaw cs) y ?f = last_yaw cs + (y - last_yaw cs) * ?f"
    using b assms f by (intro lerp_angle_blend)
  then have "\<bar>lerp_angle (last_yaw cs) y ?f\<bar> \<le> 1"
    using blend_bounded [OF b(1) assms(3) f] by simp
  moreover have "\<bar>last_throttle cs + (t - last_throttle cs) * ?f\<bar> \<le> 1"
    by (rule blend_bounded [OF b(2) assms(4) f])
  moreover have "\<bar>last_pitch cs + (p - last_pitch cs) * ?f\<bar> \<le> 1"
    by (rule blend_bounded [OF b(3) assms(5) f])
  ultimately show ?thesis
    by (simp add: smooth_controls_def bounded_controls_def Let_def)
qed

lemma validate_cases:
  "validate data = Inl (HttpError 400 ''No data received'') \<or>
   validate data = Inl (HttpError 400 ''Incomplete data provided'') \<or>
   (\<exists>r d ter delta. data = Some r \<and> req_drone r = Given d \<and> req_terrain r = Given ter \<and>
      dt r = Some delta \<and> validate data = Inr (d, lockedTarget r, ter, obstacles r, delta))"
  by (auto simp: validate_def split: option.splits field.splits)

lemma get_controls_bounded:
  assumes "bounded_controls (control st)" "positive_step data"
  shows "bounded_controls (control (fst (get_controls st data))) \<and>
         response_bounded (snd (get_controls st data))"
proof -
  from validate_cases [of data] consider
      e where "validate data = Inl e"
    | r d ter delta where "data = Some r" "req_drone r = Given d" "dt r = Some delta"
        "validate data = Inr (d, lockedTarget r, ter, obstacles r, delta)"
    by blast
  then show ?thesis
  proof cases
    case 1
    with assms show ?thesis by (simp add: get_controls_def response_bounded_def)
  next
    case 2
    with assms have pos: "0 < delta" "0 < maxTurn d" by (simp_all add: positive_step_def)
    obtain ss dir where s: "steer (search st) d (lockedTarget r) (obstacles r) delta = (ss, dir)"
      by (cases "steer (search st) d (lockedTarget r) (obstacles r) delta")
    from raw_controls_bounded [OF pos(2), of ter delta dir] obtain y t p where
      raw: "raw_controls d ter delta dir = Some (y, t, p)" and
      b: "\<bar>y\<bar> \<le> 1" "\<bar>t\<bar> \<le> 1" "\<bar>p\<bar> \<le> 1"
      by blast
    have "bounded_controls (smooth_controls (control st) delta (y, t, p))"
      using assms(1) pos(1) b by (rule smooth_controls_bounded)
    then show ?thesis
      using 2 s raw
      by (simp add: get_controls_def Let_def response_bounded_def bounded_controls_def)
  qed
qed

lemma run_bounded:
  "bounded_controls (control st) \<Longrightarrow> \<forall>r \<in> set rs. positive_step r \<Longrightarrow>
   bounded_controls (control (fst (run st rs))) \<and> list_all response_bounded (snd (run st rs))"
proof (induction rs arbitrary: st)
  case Nil
  then show ?case by simp
next
  case (Cons r rs)
  obtain st1 resp where g: "get_controls st r = (st1, resp)" by (cases "get_controls st r")
  have "bounded_controls (control st1) \<and> response_bounded resp"
    using get_controls_bounded [of st r] Cons.prems g by simp
  moreover from this have "bounded_controls (control (fst (run st1 rs))) \<and>
      list_all response_bounded (snd (run st1 rs))"
    using Cons.IH [of st1] Cons.prems by simp
  ultimately show ?case using g by (cases "run st1 rs") simp
qed

text \<open>
  Over exact reals: from the initial output filter (0, 0, 0), through any sequence of
  ticks in which every request has \<open>dt > 0\<close> and \<open>maxTurn > 0\<close>, the yaw, throttle and pitch
  of every successful response and of the output filter are within [-1, 1]. The proof
  rests on \<open>wrap_angle\<close> being the identity on a difference of at most 2, which holds for
  the reals; the doubles of the code compute \<open>atan2 (sin x) (cos x)\<close> with rounding, so this
  lemma does not bound what the code returns to the last bit.
\<close>

lemma controls_within_bounds_exact:
  assumes "list_all positive_step rs"
  shows "bounded_controls (control initial_state) \<and>
         bounded_controls (control (fst (run initial_state rs))) \<and>
         list_all response_bounded (snd (run initial_state rs))"
proof -
  have i: "bounded_controls (control initial_state)"
    by (simp add: initial_state_def initial_control_state_def bounded_controls_def)
  with run_bounded [OF i] assms show ?thesis by (simp add: list_all_iff)
qed


section \<open>Validation\<close>

lemma get_controls_search:
  "validate data = Inr (d, lt, ter, obs, delta) \<Longrightarrow>
   search (fst (get_controls st data)) = fst (steer (search st) d lt obs delta)"
  by (simp add: get_controls_def Let_def split: prod.splits option.splits)

lemma validate_falsy:
  "req_drone r = Falsy \<or> req_terrain r = Falsy \<or> req_drone r = Missing \<or> req_terrain r = Missing \<Longrightarrow>
   validate (Some r) = Inl (HttpError 400 ''Incomplete data provided'')"
  by (auto simp: validate_def split: field.splits option.splits)

lemma get_controls_invalid:
  "validate data = Inl e \<Longrightarrow> get_controls st data = (st, Inl e)"
  by (simp add: get_controls_def)

lemma validate_given:
  "req_drone r = Given d \<Longrightarrow> req_terrain r = Given ter \<Longrightarrow> dt r = Some delta \<Longrightarrow>
   validate (Some r) = Inr (d, lockedTarget r, ter, obstacles r, delta)"
  by (simp add: validate_def)

lemma raw_controls_defined:
  "maxTurn d \<noteq> 0 \<Longrightarrow> raw_controls d ter delta dir \<noteq> None"
  by (simp add: raw_controls_def Let_def)

lemma get_controls_success:
  assumes "validate data = Inr (d, lt, ter, obs, delta)" and "maxTurn d \<noteq> 0"
  shows "\<not> isl (snd (get_controls st data))"
proof -
  obtain ss dir where s: "steer (search st) d lt obs delta = (ss, dir)"
    by (cases "steer (search st) d lt obs delta")
  obtain raw where "raw_controls d ter delta dir = Some raw"
    using raw_controls_defined [OF assms(2), of ter delta dir] by blast
  with assms(1) s show ?thesis by (simp add: get_controls_def Let_def)
qed




text \<open>
  C10. A request whose \<open>drone\<close> or \<open>terrain\<close> is present but falsy (the empty object) gets
  HTTP 400 with the error Incomplete data provided and leaves the state as it was, exactly
  as if the field were missing. \<open>dt\<close> is only tested for being absent: with a drone and a
  terrain given, every \<open>dt\<close>, also 0 and negative ones, passes validation, the FSM is stepped,
  and the response is a success when \<open>maxTurn\<close> is not 0.
\<close>

theorem falsy_fields_rejected:
  "(req_drone r = Falsy \<or> req_terrain r = Falsy \<longrightarrow>
      get_controls st (Some r) = (st, Inl (HttpError 400 ''Incomplete data provided''))) \<and>
   get_controls st (Some (r\<lparr>req_drone := Falsy\<rparr>)) = get_controls st (Some (r\<lparr>req_drone := Missing\<rparr>)) \<and>
   get_controls st (Some (r\<lparr>req_terrain := Falsy\<rparr>)) = get_controls st (Some (r\<lparr>req_terrain := Missing\<rparr>)) \<and>
   (req_drone r = Given d \<and> req_terrain r = Given ter \<and> dt r = Some delta \<longrightarrow>
      validate (Some r) = Inr (d, lockedTarget r, ter, obstacles r, delta) \<and>
      search (fst (get_controls st (Some r))) =
        fst (steer (search st) d (lockedTarget r) (obstacles r) delta) \<and>
      (maxTurn d \<noteq> 0 \<longrightarrow> \<not> isl (snd (get_controls st (Some r)))))"
proof (intro conjI impI)
  assume "req_drone r = Falsy \<or> req_terrain r = Falsy"
  then have "validate (Some r) = Inl (HttpError 400 ''Incomplete data provided'')"
    by (intro validate_falsy) blast
  then show "get_controls st (Some r) = (st, Inl (HttpError 400 ''Incomplete data provided''))"
    by (rule get_controls_invalid)
next
  show "get_controls st (Some (r\<lparr>req_drone := Falsy\<rparr>)) = get_controls st (Some (r\<lparr>req_drone := Missing\<rparr>))"
    by (simp add: get_controls_invalid validate_falsy)
next
  show "get_controls st (Some (r\<lparr>req_terrain := Falsy\<rparr>)) = get_controls st (Some (r\<lparr>req_terrain := Missing\<rparr>))"
    by (simp add: get_controls_invalid validate_falsy)
next
  assume a: "req_drone r = Given d \<and> req_terrain r = Given ter \<and> dt r = Some delta"
  then show v: "validate (Some r) = Inr (d, lockedTarget r, ter, obstacles r, delta)"
    by (simp add: validate_given)
  then show "search (fst (get_controls st (Some r))) =
      fst (steer (search st) d (lockedTarget r) (obstacles r) delta)"
    by (rule get_controls_search)
  assume "maxTurn d \<noteq> 0"
  with v show "\<not> isl (snd (get_controls st (Some r)))" by (rule get_controls_success)
qed

theorem falsy_fields_rejected_witness:
  "(req_drone \<lparr>req_drone = Falsy, lockedTarget = None, req_terrain = Given flat_terrain,
       obstacles = [], dt = Some 0.1\<rparr> = Falsy \<and>
    get_controls initial_state
      (Some \<lparr>req_drone = Falsy, lockedTarget = None, req_terrain = Given flat_terrain,
         obstacles = [], dt = Some 0.1\<rparr>) =
      (initial_state, Inl (HttpError 400 ''Incomplete data provided''))) \<and>
   (req_drone (the (search_request 0)) = Given drone_at_origin \<and>
    req_terrain (the (search_request 0)) = Given flat_terrain \<and>
    dt (the (search_request 0)) = Some 0 \<and>
    maxTurn drone_at_origin \<noteq> 0 \<and>
    validate (search_request 0) = Inr (drone_at_origin, None, flat_terrain, [], 0) \<and>
    \<not> isl (snd (get_controls initial_state (search_request 0)))) \<and>
   (dt (the (search_request (- 1))) = Some (- 1) \<and>
    validate (search_request (- 1)) = Inr (drone_at_origin, None, flat_terrain, [], - 1) \<and>
    \<not> isl (snd (get_controls initial_state (search_request (- 1)))))"
  using falsy_fields_rejected [where r =
      "\<lparr>req_drone = Falsy, lockedTarget = None, req_terrain = Given flat_terrain,
         obstacles = [], dt = Some 0.1\<rparr>" and st = initial_state]
    falsy_fields_rejected [where r = "the (search_request 0)" and d = drone_at_origin
      and ter = flat_terrain and delta = 0 and st = initial_state]
    falsy_fields_rejected [where r = "the (search_request (- 1))" and d = drone_at_origin
      and ter = flat_terrain and delta = "- 1" and st = initial_state]
  by (simp add: search_request_def drone_at_origin_def)

section \<open>Hunting\<close>

lemma find_direction_hunting:
  "find_direction ss d (Some t) delta = (ss\<lparr>inited := False\<rparr>, hunt_raw_dir d t)"
  by (simp add: find_direction_def)

lemma steer_hunting_frame:
  "fst (steer ss d (Some t) obs delta) =
     ss\<lparr>inited := False, seekDir := seekDir (fst (steer ss d (Some t) obs delta))\<rparr>"
  by (simp add: steer_def find_direction_hunting Let_def split: prod.splits)

text \<open>
  C9. A hunting tick (a locked target is present and validation passes) leaves
  \<open>centerYaw\<close>, \<open>side\<close>, \<open>phase\<close> and \<open>timer\<close> of the FSM as they were; it writes only
  \<open>inited\<close>, which becomes false, and \<open>seekDir\<close>.
\<close>

theorem hunting_tick_frame:
  assumes "validate data = Inr (d, Some t, ter, obs, delta)"
  shows "search (fst (get_controls st data)) =
           (search st)\<lparr>inited := False, seekDir := seekDir (search (fst (get_controls st data)))\<rparr> \<and>
         centerYaw (search (fst (get_controls st data))) = centerYaw (search st) \<and>
         side (search (fst (get_controls st data))) = side (search st) \<and>
         phase (search (fst (get_controls st data))) = phase (search st) \<and>
         timer (search (fst (get_controls st data))) = timer (search st) \<and>
         inited (search (fst (get_controls st data))) = False"
proof -
  let ?ss = "search (fst (get_controls st data))"
  have e: "?ss = fst (steer (search st) d (Some t) obs delta)"
    using assms by (rule get_controls_search)
  have f: "?ss = (search st)\<lparr>inited := False, seekDir := seekDir ?ss\<rparr>"
    unfolding e by (rule steer_hunting_frame)
  have "centerYaw ?ss = centerYaw (search st)" by (subst f) simp
  moreover have "side ?ss = side (search st)" by (subst f) simp
  moreover have "phase ?ss = phase (search st)" by (subst f) simp
  moreover have "timer ?ss = timer (search st)" by (subst f) simp
  moreover have "inited ?ss = False" by (subst f) simp
  ultimately show ?thesis using f by blast
qed

theorem hunting_tick_frame_witness:
  "validate (hunt_request 0.1) = Inr (drone_at_origin, Some target_ahead, flat_terrain, [], 0.1) \<and>
   search (fst (get_controls initial_state (hunt_request 0.1))) =
     (search initial_state)\<lparr>inited := False,
        seekDir := seekDir (search (fst (get_controls initial_state (hunt_request 0.1))))\<rparr> \<and>
   centerYaw (search (fst (get_controls initial_state (hunt_request 0.1)))) = centerYaw (search initial_state) \<and>
   side (search (fst (get_controls initial_state (hunt_request 0.1)))) = side (search initial_state) \<and>
   phase (search (fst (get_controls initial_state (hunt_request 0.1)))) = phase (search initial_state) \<and>
   timer (search (fst (get_controls initial_state (hunt_request 0.1)))) = timer (search initial_state) \<and>
   inited (search (fst (get_controls initial_state (hunt_request 0.1)))) = False"
proof -
  have v: "validate (hunt_request 0.1) = Inr (drone_at_origin, Some target_ahead, flat_terrain, [], 0.1)"
    by (simp add: validate_def hunt_request_def)
  from hunting_tick_frame [OF v, of initial_state] v show ?thesis by blast
qed

lemma sqrt_millionth: "sqrt 0.000001 = 0.001"
  by (rule real_sqrt_unique) (simp_all add: power2_eq_square)

lemma normalized_unit:
  fixes a b :: real
  assumes "0 < a\<^sup>2 + b\<^sup>2"
  shows "(a * (1 / sqrt (a\<^sup>2 + b\<^sup>2)))\<^sup>2 + (b * (1 / sqrt (a\<^sup>2 + b\<^sup>2)))\<^sup>2 = 1"
proof -
  have "a\<^sup>2 / (a\<^sup>2 + b\<^sup>2) + b\<^sup>2 / (a\<^sup>2 + b\<^sup>2) = 1"
    using assms by (auto simp: add_divide_distrib [symmetric])
  then show ?thesis by (simp add: power_mult_distrib power_divide)
qed

lemma hunt_raw_dir_unit: "length_sq (hunt_raw_dir d t) = 1"
proof (cases "length_sq (intercept_vector d t) > 0.000001")
  case True
  moreover have "(0::real) < 0.000001" by simp
  ultimately have "0 < length_sq (intercept_vector d t)" by linarith
  then show ?thesis using True normalized_unit
    by (simp add: hunt_raw_dir_def length_sq_def intercept_vector_def Let_def)
next
  case False
  then show ?thesis
    by (simp add: hunt_raw_dir_def length_sq_def intercept_vector_def Let_def)
qed

text \<open>
  C5. On a hunting tick the raw direction is the normalisation of the intercept vector
  (target position minus drone position plus target velocity times 0.6, in the (x, z) plane)
  whenever the squared length of that vector exceeds 1e-6; the divisor is then above
  0.001 and the raw direction has length 1. When the squared length is at most 1e-6 the raw
  direction is the forward vector (cos yaw, sin yaw) of the drone, and nothing is divided.
\<close>

theorem hunting_raw_direction:
  "(length_sq (intercept_vector d t) > 0.000001 \<longrightarrow>
      snd (find_direction ss d (Some t) delta) = normalize (intercept_vector d t) \<and>
      sqrt (length_sq (intercept_vector d t)) > 0.001 \<and>
      length_sq (snd (find_direction ss d (Some t) delta)) = 1) \<and>
   (length_sq (intercept_vector d t) \<le> 0.000001 \<longrightarrow>
      snd (find_direction ss d (Some t) delta) = \<lparr>vx = cos (yaw d), vz = sin (yaw d)\<rparr>)"
proof (intro conjI impI)
  assume a: "length_sq (intercept_vector d t) > 0.000001"
  then show "snd (find_direction ss d (Some t) delta) = normalize (intercept_vector d t)"
    by (simp add: find_direction_def hunt_raw_dir_def normalize_def length_sq_def
        intercept_vector_def Let_def)
  have "sqrt 0.000001 < sqrt (length_sq (intercept_vector d t))"
    using a by (simp only: real_sqrt_less_iff)
  then show "sqrt (length_sq (intercept_vector d t)) > 0.001"
    by (simp only: sqrt_millionth)
  show "length_sq (snd (find_direction ss d (Some t) delta)) = 1"
    by (simp add: find_direction_def hunt_raw_dir_unit)
next
  assume "length_sq (intercept_vector d t) \<le> 0.000001"
  then show "snd (find_direction ss d (Some t) delta) = \<lparr>vx = cos (yaw d), vz = sin (yaw d)\<rparr>"
    by (simp add: find_direction_def hunt_raw_dir_def length_sq_def intercept_vector_def Let_def)
qed

theorem hunting_raw_direction_witness:
  "length_sq (intercept_vector drone_at_origin target_ahead) > 0.000001 \<and>
   snd (find_direction initial_search_state drone_at_origin (Some target_ahead) 0.1) =
     normalize (intercept_vector drone_at_origin target_ahead) \<and>
   sqrt (length_sq (intercept_vector drone_at_origin target_ahead)) > 0.001 \<and>
   length_sq (snd (find_direction initial_search_state drone_at_origin (Some target_ahead) 0.1)) = 1 \<and>
   length_sq (intercept_vector drone_at_origin target_on_drone) \<le> 0.000001 \<and>
   snd (find_direction initial_search_state drone_at_origin (Some target_on_drone) 0.1) =
     \<lparr>vx = cos (yaw drone_at_origin), vz = sin (yaw drone_at_origin)\<rparr>"
proof -
  have a: "length_sq (intercept_vector drone_at_origin target_ahead) > 0.000001"
    by (simp add: length_sq_def intercept_vector_def drone_at_origin_def target_ahead_def)
  have b: "length_sq (intercept_vector drone_at_origin target_on_drone) \<le> 0.000001"
    by (simp add: length_sq_def intercept_vector_def drone_at_origin_def target_on_drone_def)
  from hunting_raw_direction [of drone_at_origin target_ahead initial_search_state "0.1"]
    hunting_raw_direction [of drone_at_origin target_on_drone initial_search_state "0.1"] a b
  show ?thesis by blast
qed

section \<open>The search pattern\<close>


































section \<open>The seek direction\<close>

lemma unit_sqrt: "length_sq v = 1 \<Longrightarrow> sqrt ((vx v)\<^sup>2 + (vz v)\<^sup>2) = 1"
  by (simp add: length_sq_def)

lemma vec2_eta: "\<lparr>vx = vx v, vz = vz v\<rparr> = (v::vec2)"
  by simp

lemma smooth_dir_snap:
  assumes "length_sq (h a_raw) = 1"
  shows "fst (smooth_dir True True delta h) = a_raw"
    and "snd (smooth_dir True True delta h) a_raw = h a_raw"
proof -
  have "sqrt ((vx (h a_raw))\<^sup>2 + (vz (h a_raw))\<^sup>2) = 1"
    using assms by (rule unit_sqrt)
  then show "fst (smooth_dir True True delta h) = a_raw"
    and "snd (smooth_dir True True delta h) a_raw = h a_raw"
    by (simp_all add: smooth_dir_def Let_def a_raw_def a_copy_def a_state_def)
qed

lemma smoothed_seek_dir_snap:
  assumes "inited ss"
  shows "smoothed_seek_dir ss d (Some t) delta = hunt_raw_dir d t"
proof -
  define h0 where "h0 = initial_store (ss\<lparr>inited := False\<rparr>) d (hunt_raw_dir d t)"
  have r: "h0 a_raw = hunt_raw_dir d t" by (simp add: h0_def initial_store_def)
  then have u: "length_sq (h0 a_raw) = 1" by (simp add: hunt_raw_dir_unit)
  have "smoothed_seek_dir ss d (Some t) delta =
      snd (smooth_dir True True delta h0) (fst (smooth_dir True True delta h0))"
    using assms
    by (simp add: smoothed_seek_dir_def find_direction_hunting h0_def case_prod_beta)
  then show ?thesis using smooth_dir_snap [of h0 delta] u r by simp
qed

lemma avoid_dir_value:
  "avoid_dir p obs a h a = avoided p obs (h a)"
  by (simp add: avoid_dir_def avoided_def Let_def)

lemma steer_desired:
  "snd (steer ss d lt obs delta) = avoided (position d) obs (smoothed_seek_dir ss d lt delta)"
  by (simp add: steer_def smoothed_seek_dir_def Let_def case_prod_beta avoid_dir_value)

lemma steer_seekDir:
  "seekDir (fst (steer ss d lt obs delta)) = Some (snd (steer ss d lt obs delta))"
  by (simp add: steer_def Let_def case_prod_beta)

lemma get_controls_seekDir:
  assumes "validate data = Inr (d, lt, ter, obs, delta)"
  shows "seekDir (search (fst (get_controls st data))) =
           Some (avoided (position d) obs (smoothed_seek_dir (search st) d lt delta))"
  by (simp add: get_controls_search [OF assms] steer_seekDir steer_desired)

lemma sqrt_100: "sqrt 100 = 10"
  by (rule real_sqrt_unique) simp_all

lemma edge_hunt_raw_dir: "hunt_raw_dir drone_near_edge target_near_edge = \<lparr>vx = 1, vz = 0\<rparr>"
  by (simp add: hunt_raw_dir_def drone_near_edge_def target_near_edge_def Let_def sqrt_100)

lemma blend_same:
  "length_sq v = 1 \<Longrightarrow> h a_state = v \<Longrightarrow> h a_raw = v \<Longrightarrow>
   snd (smooth_dir hunting False delta h) (fst (smooth_dir hunting False delta h)) = v"
  by (simp add: smooth_dir_def Let_def a_raw_def a_copy_def a_state_def unit_sqrt)

lemma edge_smoothed:
  "smoothed_seek_dir (search initial_state) drone_near_edge (Some target_near_edge) 0.1
     = \<lparr>vx = 1, vz = 0\<rparr>"
proof -
  define h0 where "h0 = initial_store (initial_search_state\<lparr>inited := False\<rparr>) drone_near_edge
      (hunt_raw_dir drone_near_edge target_near_edge)"
  have y: "yaw drone_near_edge = 0" by (simp add: drone_near_edge_def)
  have a: "h0 a_state = \<lparr>vx = 1, vz = 0\<rparr>" "h0 a_raw = \<lparr>vx = 1, vz = 0\<rparr>"
    by (simp_all add: h0_def initial_store_def initial_search_state_def y
        edge_hunt_raw_dir a_state_def a_raw_def)
  have u: "length_sq \<lparr>vx = 1, vz = 0\<rparr> = 1" by (simp add: length_sq_def)
  have "smoothed_seek_dir (search initial_state) drone_near_edge (Some target_near_edge) 0.1
      = snd (smooth_dir True False 0.1 h0) (fst (smooth_dir True False 0.1 h0))"
    by (simp add: smoothed_seek_dir_def find_direction_hunting h0_def case_prod_beta
        initial_state_def initial_search_state_def)
  also have "\<dots> = \<lparr>vx = 1, vz = 0\<rparr>" using u a by (rule blend_same)
  finally show ?thesis .
qed

lemma edge_push:
  "steer_avoid (position drone_near_edge) \<lparr>vx = 1, vz = 0\<rparr> [] = \<lparr>px = 0, py = 0, pz = - (27 / 14)\<rparr>"
  by (simp add: steer_avoid_def drone_near_edge_def Let_def HALF_def copysign1_def)

lemma edge_len: "(1 / 10 ^ 6 :: real) < sqrt (925 / 196)"
proof -
  have "1 \<le> sqrt (925 / 196)" by simp
  moreover have "(1 / 10 ^ 6 :: real) < 1" by simp
  ultimately show ?thesis by (rule less_le_trans [rotated])
qed

lemma edge_avoided:
  "avoided (position drone_near_edge) [] \<lparr>vx = 1, vz = 0\<rparr>
     = \<lparr>vx = 1 / sqrt (925 / 196), vz = - (27 / 14) / sqrt (925 / 196)\<rparr>"
proof -
  have e: "sqrt (1 + (27 / 14)\<^sup>2) = sqrt (925 / 196)" by (simp add: power2_eq_square)
  show ?thesis
    using edge_len by (simp add: avoided_def avoid_dir_def Let_def edge_push e)
qed

text \<open>
  C1. The claim: the \<open>seekDir\<close> that the FSM holds at the end of a successful tick is the
  result of the smoothing stage and does not include the avoidance vector. The code stores
  the object \<open>seek_dir\<close> in the FSM and then binds \<open>desired_dir\<close> to the same object, so
  the avoidance block updates the stored direction in place. Evaluated from the initial
  state on a hunting request with the drone at (0, 0, 431), one unit from the edge: the
  smoothing stage yields (1, 0), the FSM holds the direction pushed away from the edge and
  normalised, which is a different vector.
\<close>

theorem seekDir_includes_avoidance:
  "smoothed_seek_dir (search initial_state) drone_near_edge (Some target_near_edge) 0.1
     = \<lparr>vx = 1, vz = 0\<rparr> \<and>
   seekDir (search (fst (get_controls initial_state edge_request)))
     = Some \<lparr>vx = 1 / sqrt (925 / 196), vz = - (27 / 14) / sqrt (925 / 196)\<rparr> \<and>
   seekDir (search (fst (get_controls initial_state edge_request)))
     \<noteq> Some (smoothed_seek_dir (search initial_state) drone_near_edge (Some target_near_edge) 0.1)"
proof -
  have v: "validate edge_request =
      Inr (drone_near_edge, Some target_near_edge, flat_terrain, [], 0.1)"
    by (simp add: validate_def edge_request_def)
  have p: "seekDir (search (fst (get_controls initial_state edge_request)))
      = Some \<lparr>vx = 1 / sqrt (925 / 196), vz = - (27 / 14) / sqrt (925 / 196)\<rparr>"
    by (simp only: get_controls_seekDir [OF v] edge_smoothed edge_avoided)
  have "0 < sqrt (925 / 196 :: real)" by simp
  then have "- (27 / 14) / sqrt (925 / 196 :: real) \<noteq> 0" by simp
  then have "\<lparr>vx = 1 / sqrt (925 / 196), vz = - (27 / 14) / sqrt (925 / 196)\<rparr>
      \<noteq> \<lparr>vx = 1, vz = 0 :: real\<rparr>" by simp
  with p edge_smoothed show ?thesis by simp
qed

lemma no_push_at_origin:
  "px p = 0 \<Longrightarrow> pz p = 0 \<Longrightarrow> steer_avoid p v [] = \<lparr>px = 0, py = 0, pz = 0\<rparr>"
  by (simp add: steer_avoid_def Let_def HALF_def)

lemma avoided_at_origin:
  assumes "px p = 0" "pz p = 0" "length_sq v = 1"
  shows "avoided p [] v = v"
  using unit_sqrt [OF assms(3)]
  by (simp add: avoided_def avoid_dir_def Let_def no_push_at_origin [OF assms(1,2)])

lemma ahead_hunt_raw_dir:
  assumes "position d = \<lparr>px = 0, py = 0, pz = 0\<rparr>"
    and "tgt_position t = \<lparr>px = 10, py = 0, pz = 0\<rparr>"
    and "tgt_velocity t = \<lparr>px = 0, py = 0, pz = 0\<rparr>"
  shows "hunt_raw_dir d t = \<lparr>vx = 1, vz = 0\<rparr>"
  using assms by (simp add: hunt_raw_dir_def Let_def sqrt_100)

text \<open>
  C4. On a tick with a locked target whose FSM is still marked initialised, the seek
  direction that the smoothing stage yields is the raw intercept direction itself: nothing
  is blended, whatever \<open>dt\<close> and the earlier seek direction are. In particular, with the
  drone at (0, 0, 0), no obstacles and a stationary target at (10, 0, 0), that direction is
  (1, 0), and (1, 0) is what the FSM holds as \<open>seekDir\<close> after the tick.
\<close>

theorem acquisition_snap:
  assumes "inited (search st)" and "validate data = Inr (d, Some t, ter, obs, delta)"
  shows "smoothed_seek_dir (search st) d (Some t) delta =
           snd (find_direction (search st) d (Some t) delta) \<and>
         (position d = \<lparr>px = 0, py = 0, pz = 0\<rparr> \<and>
          tgt_position t = \<lparr>px = 10, py = 0, pz = 0\<rparr> \<and>
          tgt_velocity t = \<lparr>px = 0, py = 0, pz = 0\<rparr> \<and> obs = [] \<longrightarrow>
            smoothed_seek_dir (search st) d (Some t) delta = \<lparr>vx = 1, vz = 0\<rparr> \<and>
            seekDir (search (fst (get_controls st data))) = Some \<lparr>vx = 1, vz = 0\<rparr>)"
proof (intro conjI impI)
  show s: "smoothed_seek_dir (search st) d (Some t) delta =
      snd (find_direction (search st) d (Some t) delta)"
    using assms(1) by (simp add: smoothed_seek_dir_snap find_direction_hunting)
  assume a: "position d = \<lparr>px = 0, py = 0, pz = 0\<rparr> \<and>
      tgt_position t = \<lparr>px = 10, py = 0, pz = 0\<rparr> \<and>
      tgt_velocity t = \<lparr>px = 0, py = 0, pz = 0\<rparr> \<and> obs = []"
  then have r: "hunt_raw_dir d t = \<lparr>vx = 1, vz = 0\<rparr>" by (intro ahead_hunt_raw_dir) simp_all
  then show e: "smoothed_seek_dir (search st) d (Some t) delta = \<lparr>vx = 1, vz = 0\<rparr>"
    using assms(1) by (simp add: smoothed_seek_dir_snap)
  have "avoided (position d) [] \<lparr>vx = 1, vz = 0\<rparr> = \<lparr>vx = 1, vz = 0\<rparr>"
    using a by (intro avoided_at_origin) (simp_all add: length_sq_def)
  with a e show "seekDir (search (fst (get_controls st data))) = Some \<lparr>vx = 1, vz = 0\<rparr>"
    by (simp add: get_controls_seekDir [OF assms(2)])
qed

theorem acquisition_snap_witness:
  "inited (search holding_state) \<and>
   validate (hunt_request 0.1) = Inr (drone_at_origin, Some target_ahead, flat_terrain, [], 0.1) \<and>
   position drone_at_origin = \<lparr>px = 0, py = 0, pz = 0\<rparr> \<and>
   tgt_position target_ahead = \<lparr>px = 10, py = 0, pz = 0\<rparr> \<and>
   tgt_velocity target_ahead = \<lparr>px = 0, py = 0, pz = 0\<rparr> \<and>
   smoothed_seek_dir (search holding_state) drone_at_origin (Some target_ahead) 0.1 =
     snd (find_direction (search holding_state) drone_at_origin (Some target_ahead) 0.1) \<and>
   smoothed_seek_dir (search holding_state) drone_at_origin (Some target_ahead) 0.1 =
     \<lparr>vx = 1, vz = 0\<rparr> \<and>
   seekDir (search (fst (get_controls holding_state (hunt_request 0.1)))) = Some \<lparr>vx = 1, vz = 0\<rparr>"
proof -
  have i: "inited (search holding_state)" by (simp add: holding_state_def)
  have v: "validate (hunt_request 0.1) =
      Inr (drone_at_origin, Some target_ahead, flat_terrain, [], 0.1)"
    by (simp add: validate_def hunt_request_def)
  have p: "position drone_at_origin = \<lparr>px = 0, py = 0, pz = 0\<rparr>"
    "tgt_position target_ahead = \<lparr>px = 10, py = 0, pz = 0\<rparr>"
    "tgt_velocity target_ahead = \<lparr>px = 0, py = 0, pz = 0\<rparr>"
    by (simp_all add: drone_at_origin_def target_ahead_def)
  from acquisition_snap [OF i v] i v p show ?thesis by blast
qed

section \<open>Obstacle repulsion\<close>

lemma atan2_scale:
  assumes "0 < c"
  shows "atan2 (c * y) (c * x) = atan2 y x"
  using assms by (simp add: atan2_def zero_less_mult_iff mult_less_0_iff zero_le_mult_iff)

lemma steer_avoid_single:
  assumes "clear_of_boundary p" "0 \<le> radius ob"
    "0.000001 < lookahead_dist p v ob" "lookahead_dist p v ob < radius ob + 1.8"
  shows "steer_avoid p v [ob] =
           \<lparr>px = ((px p + vx v * 0.1 - vx (pos ob)) / lookahead_dist p v ob)
                   * (1 - lookahead_dist p v ob / (radius ob + 1.8)),
            py = 0,
            pz = ((pz p + vz v * 0.1 - vz (pos ob)) / lookahead_dist p v ob)
                   * (1 - lookahead_dist p v ob / (radius ob + 1.8))\<rparr>"
proof -
  let ?d2 = "(px p + vx v * 0.1 - vx (pos ob))\<^sup>2 + (pz p + vz v * 0.1 - vz (pos ob))\<^sup>2"
  let ?r = "radius ob + 1.8"
  have dist: "lookahead_dist p v ob = sqrt ?d2" by (simp add: lookahead_dist_def)
  have "sqrt ?d2 < sqrt (?r * ?r)" using assms(2,4) dist by simp
  then have lt: "?d2 < ?r * ?r" by (simp only: real_sqrt_less_iff)
  have gt: "0.000001 < sqrt ?d2" using assms(3) dist by simp
  have b: "\<not> HALF - \<bar>px p\<bar> < 28" "\<not> HALF - \<bar>pz p\<bar> < 28"
    using assms(1) by (simp_all add: clear_of_boundary_def)
  show ?thesis
    unfolding dist using lt gt b
    by (simp add: steer_avoid_def obstacle_push_def Let_def)
qed


lemma scaled_unit_length:
  fixes a b dist k :: real
  assumes "dist = sqrt (a\<^sup>2 + b\<^sup>2)" "0 < dist" "0 \<le> k"
  shows "sqrt ((a / dist * k)\<^sup>2 + (b / dist * k)\<^sup>2) = k"
proof -
  have d2: "dist\<^sup>2 = a\<^sup>2 + b\<^sup>2" using assms(1) by simp
  have "(a / dist * k)\<^sup>2 + (b / dist * k)\<^sup>2 = (a\<^sup>2 + b\<^sup>2) / dist\<^sup>2 * k\<^sup>2"
    by (simp add: power_mult_distrib power_divide add_divide_distrib distrib_right)
  also have "\<dots> = k\<^sup>2" using assms(2) by (simp add: d2 [symmetric])
  finally show ?thesis using assms(3) by simp
qed

lemma push_length_single:
  assumes "clear_of_boundary p" "0 \<le> radius ob"
    "0.000001 < lookahead_dist p v ob" "lookahead_dist p v ob < radius ob + 1.8"
  shows "push_length (steer_avoid p v [ob]) = 1 - lookahead_dist p v ob / (radius ob + 1.8)"
    and "0 < push_length (steer_avoid p v [ob])"
proof -
  let ?dist = "lookahead_dist p v ob"
  let ?k = "1 - ?dist / (radius ob + 1.8)"
  have pos: "0 < ?dist"
  proof -
    have "(0::real) < 0.000001" by simp
    then show ?thesis using assms(3) by (rule less_trans)
  qed
  have r: "0 < radius ob + 1.8" using assms(2) by simp
  have "?dist / (radius ob + 1.8) < 1" using assms(4) r by simp
  then have k: "0 < ?k" by simp
  have d: "?dist = sqrt ((px p + vx v * 0.1 - vx (pos ob))\<^sup>2 + (pz p + vz v * 0.1 - vz (pos ob))\<^sup>2)"
    by (simp add: lookahead_dist_def)
  have "push_length (steer_avoid p v [ob]) =
      sqrt (((px p + vx v * 0.1 - vx (pos ob)) / ?dist * ?k)\<^sup>2
          + ((pz p + vz v * 0.1 - vz (pos ob)) / ?dist * ?k)\<^sup>2)"
    by (simp only: steer_avoid_single [OF assms] push_length_def vec3.simps)
  also have "\<dots> = ?k" using d pos k by (intro scaled_unit_length) simp_all
  finally show "push_length (steer_avoid p v [ob]) = ?k" .
  with k show "0 < push_length (steer_avoid p v [ob])" by simp
qed

lemma push_length_monotone:
  assumes "clear_of_boundary p" "0 \<le> radius ob" "radius ob' = radius ob"
    "0.000001 < lookahead_dist p v ob'" "lookahead_dist p v ob' < lookahead_dist p v ob"
    "lookahead_dist p v ob < radius ob + 1.8"
  shows "push_length (steer_avoid p v [ob]) < push_length (steer_avoid p v [ob'])"
proof -
  have r: "0 < radius ob + 1.8" using assms(2) by simp
  have a: "0.000001 < lookahead_dist p v ob" using assms(4,5) by (rule less_trans)
  have b: "lookahead_dist p v ob' < radius ob' + 1.8" using assms(3,5,6) by simp
  have c: "0 \<le> radius ob'" using assms(2,3) by simp
  have "push_length (steer_avoid p v [ob]) = 1 - lookahead_dist p v ob / (radius ob + 1.8)"
    using assms(1,2) a assms(6) by (rule push_length_single)
  moreover have "push_length (steer_avoid p v [ob']) = 1 - lookahead_dist p v ob' / (radius ob + 1.8)"
    using push_length_single(1) [OF assms(1) c assms(4) b] assms(3) by simp
  moreover have "lookahead_dist p v ob' / (radius ob + 1.8) < lookahead_dist p v ob / (radius ob + 1.8)"
    using assms(5) r by (simp add: divide_strict_right_mono)
  ultimately show ?thesis by simp
qed


lemma avoided_eq:
  "avoided p obs v =
     (let av = steer_avoid p v obs;
          w = \<lparr>vx = vx v + px av, vz = vz v + pz av\<rparr>;
          len = sqrt ((vx w)\<^sup>2 + (vz w)\<^sup>2)
      in if len > 0.000001 then \<lparr>vx = vx w / len, vz = vz w / len\<rparr> else w)"
  by (simp add: avoided_def avoid_dir_def Let_def)

lemma scaled_heading:
  assumes "0 < c" "length_sq v = 1"
  shows "heading_angle
           (let w = \<lparr>vx = c * vx v, vz = c * vz v\<rparr>; len = sqrt ((vx w)\<^sup>2 + (vz w)\<^sup>2)
            in if len > 0.000001 then \<lparr>vx = vx w / len, vz = vz w / len\<rparr> else w)
         = heading_angle v"
proof -
  have "(c * vx v)\<^sup>2 + (c * vz v)\<^sup>2 = c\<^sup>2 * ((vx v)\<^sup>2 + (vz v)\<^sup>2)"
    by (simp add: power_mult_distrib distrib_left)
  also have "\<dots> = c\<^sup>2" using assms(2) by (simp add: length_sq_def)
  finally have "sqrt ((c * vx v)\<^sup>2 + (c * vz v)\<^sup>2) = c" using assms(1) by simp
  then show ?thesis
    using assms(1) by (simp add: Let_def heading_angle_def atan2_scale)
qed

lemma collinear_dist:
  assumes "length_sq v = 1" "pos ob = \<lparr>vx = px p + s * vx v, vz = pz p + s * vz v\<rparr>"
  shows "lookahead_dist p v ob = \<bar>0.1 - s\<bar>"
proof -
  have "(px p + vx v * 0.1 - (px p + s * vx v))\<^sup>2 + (pz p + vz v * 0.1 - (pz p + s * vz v))\<^sup>2
      = (0.1 - s)\<^sup>2 * ((vx v)\<^sup>2 + (vz v)\<^sup>2)"
    by (simp add: power2_eq_square algebra_simps)
  also have "\<dots> = (0.1 - s)\<^sup>2" using assms(1) by (simp add: length_sq_def)
  finally show ?thesis by (simp add: lookahead_dist_def assms(2))
qed

lemma collinear_no_deviation:
  assumes "clear_of_boundary p" "0 \<le> radius ob" "length_sq v = 1"
    "pos ob = \<lparr>vx = px p + s * vx v, vz = pz p + s * vz v\<rparr>"
    "0.000001 < lookahead_dist p v ob" "lookahead_dist p v ob < radius ob + 1.8"
  shows "heading_angle (avoided p [ob] v) = heading_angle v"
proof -
  let ?dist = "lookahead_dist p v ob"
  let ?k = "1 - ?dist / (radius ob + 1.8)"
  define m where "m = (0.1 - s) / ?dist * ?k"
  have dist: "?dist = \<bar>0.1 - s\<bar>" using assms(3,4) by (rule collinear_dist)
  have pos: "0 < ?dist"
  proof -
    have "(0::real) < 0.000001" by simp
    then show ?thesis using assms(5) by (rule less_trans)
  qed
  have r: "0 < radius ob + 1.8" using assms(2) by simp
  have "?dist / (radius ob + 1.8) < 1" using assms(6) r by simp
  moreover have "0 < ?dist / (radius ob + 1.8)" using pos r by simp
  ultimately have k: "0 < ?k" "?k < 1" by simp_all
  have one: "\<bar>(0.1 - s) / ?dist\<bar> = 1" using pos dist by simp
  have "\<bar>m\<bar> = \<bar>(0.1 - s) / ?dist\<bar> * \<bar>?k\<bar>" by (simp only: m_def abs_mult)
  also have "\<dots> = ?k" using k(1) by (simp only: one abs_of_pos mult_1)
  finally have c: "0 < 1 + m" using k(2) by linarith
  have av: "steer_avoid p v [ob] = \<lparr>px = m * vx v, py = 0, pz = m * vz v\<rparr>"
    by (simp add: steer_avoid_single [OF assms(1,2,5,6)] m_def assms(4) algebra_simps)
  have w: "\<lparr>vx = vx v + m * vx v, vz = vz v + m * vz v\<rparr>
      = \<lparr>vx = (1 + m) * vx v, vz = (1 + m) * vz v\<rparr>"
    by (simp add: algebra_simps)
  have "avoided p [ob] v =
      (let w = \<lparr>vx = (1 + m) * vx v, vz = (1 + m) * vz v\<rparr>; len = sqrt ((vx w)\<^sup>2 + (vz w)\<^sup>2)
       in if len > 0.000001 then \<lparr>vx = vx w / len, vz = vz w / len\<rparr> else w)"
    unfolding avoided_eq av by (simp only: Let_def vec3.simps w)
  then show ?thesis using scaled_heading [OF c assms(3)] by simp
qed

lemma atan2_parallel: "x * sin (atan2 y x) = y * cos (atan2 y x)"
proof -
  consider "0 < x" | "x < 0" | "x = 0" "0 < y" | "x = 0" "y < 0" | "x = 0" "y = 0"
    by linarith
  then show ?thesis
  proof cases
    case 1
    then show ?thesis by (simp add: atan2_def sin_arctan cos_arctan)
  next
    case 2
    then show ?thesis by (simp add: atan2_def sin_arctan cos_arctan sin_add cos_add sin_diff cos_diff)
  next
    case 3
    then show ?thesis by (simp add: atan2_def)
  next
    case 4
    then show ?thesis by (simp add: atan2_def)
  next
    case 5
    then show ?thesis by (simp add: atan2_def)
  qed
qed

lemma same_heading_parallel:
  assumes "heading_angle v = heading_angle w"
  shows "vx v * vz w - vz v * vx w = 0"
proof -
  let ?th = "heading_angle v"
  have a: "vx v * sin ?th = vz v * cos ?th"
    unfolding heading_angle_def by (rule atan2_parallel)
  have b: "vx w * sin ?th = vz w * cos ?th"
    unfolding assms unfolding heading_angle_def by (rule atan2_parallel)
  let ?c = "vx v * vz w - vz v * vx w"
  have "?c * cos ?th = vx v * (vz w * cos ?th) - (vz v * cos ?th) * vx w"
    by (simp add: algebra_simps)
  also have "\<dots> = 0" unfolding a [symmetric] b [symmetric] by (simp add: algebra_simps)
  finally have c: "?c * cos ?th = 0" .
  have "?c * sin ?th = (vx v * sin ?th) * vz w - vz v * (vx w * sin ?th)"
    by (simp add: algebra_simps)
  also have "\<dots> = 0" unfolding a b by (simp add: algebra_simps)
  finally have s: "?c * sin ?th = 0" .
  show ?thesis
  proof (rule ccontr)
    assume "?c \<noteq> 0"
    then have "cos ?th = 0" "sin ?th = 0" using c s by simp_all
    then show False using sin_cos_squared_add [of ?th] by simp
  qed
qed

lemma cross_of_sum:
  fixes a b ex ez d k :: real
  shows "a * (b + ez / d * k) - b * (a + ex / d * k) = - (k / d) * (ex * b - ez * a)"
  by (simp add: divide_inverse algebra_simps)

lemma off_line_deviation:
  assumes "clear_of_boundary p" "0 \<le> radius ob"
    "0.000001 < lookahead_dist p v ob" "lookahead_dist p v ob < radius ob + 1.8"
    "(px p + vx v * 0.1 - vx (pos ob)) * vz v - (pz p + vz v * 0.1 - vz (pos ob)) * vx v \<noteq> 0"
  shows "heading_angle (avoided p [ob] v) \<noteq> heading_angle v"
proof
  assume eq: "heading_angle (avoided p [ob] v) = heading_angle v"
  let ?dist = "lookahead_dist p v ob"
  let ?k = "1 - ?dist / (radius ob + 1.8)"
  let ?ex = "px p + vx v * 0.1 - vx (pos ob)"
  let ?ez = "pz p + vz v * 0.1 - vz (pos ob)"
  let ?w = "\<lparr>vx = vx v + ?ex / ?dist * ?k, vz = vz v + ?ez / ?dist * ?k\<rparr>"
  let ?len = "sqrt ((vx ?w)\<^sup>2 + (vz ?w)\<^sup>2)"
  have pos: "0 < ?dist"
  proof -
    have "(0::real) < 0.000001" by simp
    then show ?thesis using assms(3) by (rule less_trans)
  qed
  have r: "0 < radius ob + 1.8" using assms(2) by simp
  have "?dist / (radius ob + 1.8) < 1" using assms(4) r by simp
  then have k: "0 < ?k" by simp
  have av: "avoided p [ob] v =
      (if ?len > 0.000001 then \<lparr>vx = vx ?w / ?len, vz = vz ?w / ?len\<rparr> else ?w)"
    unfolding avoided_eq steer_avoid_single [OF assms(1-4)] by (simp only: Let_def vec3.simps)
  have par: "vx v * vz (avoided p [ob] v) - vz v * vx (avoided p [ob] v) = 0"
    using same_heading_parallel [OF eq [symmetric]] .
  have base: "vx v * vz ?w - vz v * vx ?w = - (?k / ?dist) * (?ex * vz v - ?ez * vx v)"
    by (simp only: vec2.simps cross_of_sum)
  have "0 < ?k / ?dist" using k pos by (rule divide_pos_pos)
  then have "- (?k / ?dist) \<noteq> 0" by linarith
  then have nz: "vx v * vz ?w - vz v * vx ?w \<noteq> 0"
    unfolding base using assms(5) by (simp only: mult_eq_0_iff) blast
  show False
  proof (cases "?len > 0.000001")
    case True
    then have l: "0 < ?len"
    proof -
      have "(0::real) < 0.000001" by simp
      then show ?thesis using True by (rule less_trans)
    qed
    have "vx v * vz (avoided p [ob] v) - vz v * vx (avoided p [ob] v)
        = (vx v * vz ?w - vz v * vx ?w) / ?len"
      unfolding av using True by (simp add: diff_divide_distrib)
    then have "(vx v * vz ?w - vz v * vx ?w) / ?len = 0" using par by simp
    then show False using nz l by simp
  next
    case False
    then have "avoided p [ob] v = ?w" unfolding av by simp
    then show False using par nz by simp
  qed
qed

text \<open>
  C7, as amended. Take a single obstacle of radius at least 0 and a drone clear of the
  boundary margin, and let \<open>dist\<close> be the distance from the look-ahead point to the centre
  of the obstacle, with \<open>1e-6 < dist < radius + 1.8\<close>. Then the push of the avoidance field
  is the unit vector from the centre of the obstacle to the look-ahead point times
  \<open>1 - dist / (radius + 1.8)\<close>; its length is that factor, which is positive, and an
  obstacle of the same radius that is nearer to the look-ahead point gives a strictly
  longer push. When the centre of the obstacle is off the line through the look-ahead
  point along the desired direction, the desired direction after avoidance deviates from
  the one before by a nonzero angle. When the obstacle lies on the line through the drone
  along a desired direction of unit length, the push is parallel to that direction and
  the angle after avoidance is the angle before: the deviation is zero.
\<close>

theorem obstacle_repulsion:
  assumes "clear_of_boundary p" and "0 \<le> radius ob"
    and "0.000001 < lookahead_dist p v ob" and "lookahead_dist p v ob < radius ob + 1.8"
  shows "steer_avoid p v [ob] =
           \<lparr>px = ((px p + vx v * 0.1 - vx (pos ob)) / lookahead_dist p v ob)
                   * (1 - lookahead_dist p v ob / (radius ob + 1.8)),
            py = 0,
            pz = ((pz p + vz v * 0.1 - vz (pos ob)) / lookahead_dist p v ob)
                   * (1 - lookahead_dist p v ob / (radius ob + 1.8))\<rparr> \<and>
         push_length (steer_avoid p v [ob]) = 1 - lookahead_dist p v ob / (radius ob + 1.8) \<and>
         0 < push_length (steer_avoid p v [ob]) \<and>
         (radius ob' = radius ob \<and> 0.000001 < lookahead_dist p v ob' \<and>
          lookahead_dist p v ob' < lookahead_dist p v ob \<longrightarrow>
            push_length (steer_avoid p v [ob]) < push_length (steer_avoid p v [ob'])) \<and>
         (length_sq v = 1 \<and> pos ob = \<lparr>vx = px p + s * vx v, vz = pz p + s * vz v\<rparr> \<longrightarrow>
            heading_angle (avoided p [ob] v) = heading_angle v) \<and>
         ((px p + vx v * 0.1 - vx (pos ob)) * vz v
            - (pz p + vz v * 0.1 - vz (pos ob)) * vx v \<noteq> 0 \<longrightarrow>
            heading_angle (avoided p [ob] v) \<noteq> heading_angle v)"
proof (intro conjI impI)
  show "steer_avoid p v [ob] =
           \<lparr>px = ((px p + vx v * 0.1 - vx (pos ob)) / lookahead_dist p v ob)
                   * (1 - lookahead_dist p v ob / (radius ob + 1.8)),
            py = 0,
            pz = ((pz p + vz v * 0.1 - vz (pos ob)) / lookahead_dist p v ob)
                   * (1 - lookahead_dist p v ob / (radius ob + 1.8))\<rparr>"
    using assms by (rule steer_avoid_single)
  show "push_length (steer_avoid p v [ob]) = 1 - lookahead_dist p v ob / (radius ob + 1.8)"
    using assms by (rule push_length_single)
  show "0 < push_length (steer_avoid p v [ob])"
    using assms by (rule push_length_single)
next
  assume "radius ob' = radius ob \<and> 0.000001 < lookahead_dist p v ob' \<and>
      lookahead_dist p v ob' < lookahead_dist p v ob"
  then show "push_length (steer_avoid p v [ob]) < push_length (steer_avoid p v [ob'])"
    using assms by (intro push_length_monotone) simp_all
next
  assume "length_sq v = 1 \<and> pos ob = \<lparr>vx = px p + s * vx v, vz = pz p + s * vz v\<rparr>"
  then show "heading_angle (avoided p [ob] v) = heading_angle v"
    using assms by (intro collinear_no_deviation [where s = s]) simp_all
next
  assume "(px p + vx v * 0.1 - vx (pos ob)) * vz v
      - (pz p + vz v * 0.1 - vz (pos ob)) * vx v \<noteq> 0"
  with assms show "heading_angle (avoided p [ob] v) \<noteq> heading_angle v"
    by (rule off_line_deviation)
qed

lemma example_fields:
  "radius obstacle_ahead = 1" "radius obstacle_nearer = 1"
  "pos obstacle_ahead = \<lparr>vx = 1, vz = 0\<rparr>" "pos obstacle_nearer = \<lparr>vx = 0.6, vz = 0\<rparr>"
  "position drone_at_origin = \<lparr>px = 0, py = 0, pz = 0\<rparr>" "yaw drone_at_origin = 0"
  by (simp_all add: obstacle_ahead_def obstacle_nearer_def drone_at_origin_def)

lemma origin_clear: "clear_of_boundary (position drone_at_origin)"
  by (simp add: clear_of_boundary_def drone_at_origin_def HALF_def)

lemma ahead_dist:
  "lookahead_dist (position drone_at_origin) \<lparr>vx = 1, vz = 0\<rparr> obstacle_ahead = 0.9"
  "lookahead_dist (position drone_at_origin) \<lparr>vx = 1, vz = 0\<rparr> obstacle_nearer = 0.5"
proof -
  have u: "length_sq \<lparr>vx = 1, vz = 0\<rparr> = 1" by (simp add: length_sq_def)
  show "lookahead_dist (position drone_at_origin) \<lparr>vx = 1, vz = 0\<rparr> obstacle_ahead = 0.9"
    using collinear_dist [OF u, of obstacle_ahead "position drone_at_origin" 1]
    by (simp add: example_fields)
  show "lookahead_dist (position drone_at_origin) \<lparr>vx = 1, vz = 0\<rparr> obstacle_nearer = 0.5"
    using collinear_dist [OF u, of obstacle_nearer "position drone_at_origin" "0.6"]
    by (simp add: example_fields)
qed

lemma origin_smoothed:
  "smoothed_seek_dir initial_search_state drone_at_origin (Some target_ahead) 0.1
     = \<lparr>vx = 1, vz = 0\<rparr>"
proof -
  define h0 where "h0 = initial_store (initial_search_state\<lparr>inited := False\<rparr>) drone_at_origin
      (hunt_raw_dir drone_at_origin target_ahead)"
  have r: "hunt_raw_dir drone_at_origin target_ahead = \<lparr>vx = 1, vz = 0\<rparr>"
    by (rule ahead_hunt_raw_dir) (simp_all add: drone_at_origin_def target_ahead_def)
  have y: "yaw drone_at_origin = 0" by (rule example_fields)
  have a: "h0 a_state = \<lparr>vx = 1, vz = 0\<rparr>" "h0 a_raw = \<lparr>vx = 1, vz = 0\<rparr>"
    by (simp_all add: h0_def initial_store_def initial_search_state_def y r a_state_def a_raw_def)
  have u: "length_sq \<lparr>vx = 1, vz = 0\<rparr> = 1" by (simp add: length_sq_def)
  have "smoothed_seek_dir initial_search_state drone_at_origin (Some target_ahead) 0.1
      = snd (smooth_dir True False 0.1 h0) (fst (smooth_dir True False 0.1 h0))"
    by (simp add: smoothed_seek_dir_def find_direction_hunting h0_def case_prod_beta
        initial_search_state_def)
  also have "\<dots> = \<lparr>vx = 1, vz = 0\<rparr>" using u a by (rule blend_same)
  finally show ?thesis .
qed

lemma ahead_push:
  "steer_avoid (position drone_at_origin) \<lparr>vx = 1, vz = 0\<rparr> [obstacle_ahead]
     = \<lparr>px = - (19 / 28), py = 0, pz = 0\<rparr>"
proof -
  have h: "clear_of_boundary (position drone_at_origin)" "0 \<le> radius obstacle_ahead"
    "0.000001 < lookahead_dist (position drone_at_origin) \<lparr>vx = 1, vz = 0\<rparr> obstacle_ahead"
    "lookahead_dist (position drone_at_origin) \<lparr>vx = 1, vz = 0\<rparr> obstacle_ahead
       < radius obstacle_ahead + 1.8"
    by (simp_all add: origin_clear ahead_dist example_fields(1))
  show ?thesis
    unfolding steer_avoid_single [OF h] ahead_dist
    by (simp add: example_fields)
qed

lemma ahead_avoided:
  "avoided (position drone_at_origin) [obstacle_ahead] \<lparr>vx = 1, vz = 0\<rparr> = \<lparr>vx = 1, vz = 0\<rparr>"
  by (simp add: avoided_eq ahead_push Let_def)

lemma aside_fields:
  "radius obstacle_aside = 1" "pos obstacle_aside = \<lparr>vx = 3 / 25, vz = 0\<rparr>"
  by (simp_all add: obstacle_aside_def)

lemma aside_dist:
  "lookahead_dist (position drone_at_origin) \<lparr>vx = 3 / 5, vz = 4 / 5\<rparr> obstacle_aside = 0.1"
proof -
  have "(0 + 3 / 5 * 0.1 - 3 / 25)\<^sup>2 + (0 + 4 / 5 * 0.1 - 0)\<^sup>2 = (0.1::real)\<^sup>2"
    by (simp add: power2_eq_square)
  then have "sqrt ((0 + 3 / 5 * 0.1 - 3 / 25)\<^sup>2 + (0 + 4 / 5 * 0.1 - 0)\<^sup>2) = (0.1::real)"
    by (simp only: real_sqrt_abs)
  then show ?thesis
    by (simp only: lookahead_dist_def example_fields aside_fields vec2.simps vec3.simps)
qed

theorem obstacle_repulsion_witness:
  "clear_of_boundary (position drone_at_origin) \<and> 0 \<le> radius obstacle_ahead \<and>
   0.000001 < lookahead_dist (position drone_at_origin) \<lparr>vx = 1, vz = 0\<rparr> obstacle_ahead \<and>
   lookahead_dist (position drone_at_origin) \<lparr>vx = 1, vz = 0\<rparr> obstacle_ahead
     < radius obstacle_ahead + 1.8 \<and>
   radius obstacle_nearer = radius obstacle_ahead \<and>
   0.000001 < lookahead_dist (position drone_at_origin) \<lparr>vx = 1, vz = 0\<rparr> obstacle_nearer \<and>
   lookahead_dist (position drone_at_origin) \<lparr>vx = 1, vz = 0\<rparr> obstacle_nearer
     < lookahead_dist (position drone_at_origin) \<lparr>vx = 1, vz = 0\<rparr> obstacle_ahead \<and>
   length_sq \<lparr>vx = 1, vz = 0\<rparr> = 1 \<and>
   pos obstacle_ahead =
     \<lparr>vx = px (position drone_at_origin) + 1 * vx \<lparr>vx = 1, vz = 0\<rparr>,
      vz = pz (position drone_at_origin) + 1 * vz \<lparr>vx = 1, vz = 0\<rparr>\<rparr> \<and>
   steer_avoid (position drone_at_origin) \<lparr>vx = 1, vz = 0\<rparr> [obstacle_ahead]
     = \<lparr>px = - (19 / 28), py = 0, pz = 0\<rparr> \<and>
   push_length (steer_avoid (position drone_at_origin) \<lparr>vx = 1, vz = 0\<rparr> [obstacle_ahead])
     = 1 - lookahead_dist (position drone_at_origin) \<lparr>vx = 1, vz = 0\<rparr> obstacle_ahead
           / (radius obstacle_ahead + 1.8) \<and>
   0 < push_length (steer_avoid (position drone_at_origin) \<lparr>vx = 1, vz = 0\<rparr> [obstacle_ahead]) \<and>
   push_length (steer_avoid (position drone_at_origin) \<lparr>vx = 1, vz = 0\<rparr> [obstacle_ahead])
     < push_length (steer_avoid (position drone_at_origin) \<lparr>vx = 1, vz = 0\<rparr> [obstacle_nearer]) \<and>
   heading_angle (avoided (position drone_at_origin) [obstacle_ahead] \<lparr>vx = 1, vz = 0\<rparr>)
     = heading_angle \<lparr>vx = 1, vz = 0\<rparr> \<and>
   0 \<le> radius obstacle_aside \<and>
   0.000001 < lookahead_dist (position drone_at_origin) \<lparr>vx = 3 / 5, vz = 4 / 5\<rparr> obstacle_aside \<and>
   lookahead_dist (position drone_at_origin) \<lparr>vx = 3 / 5, vz = 4 / 5\<rparr> obstacle_aside
     < radius obstacle_aside + 1.8 \<and>
   (px (position drone_at_origin) + vx \<lparr>vx = 3 / 5, vz = 4 / 5\<rparr> * 0.1 - vx (pos obstacle_aside))
       * vz \<lparr>vx = 3 / 5, vz = 4 / 5\<rparr>
     - (pz (position drone_at_origin) + vz \<lparr>vx = 3 / 5, vz = 4 / 5\<rparr> * 0.1 - vz (pos obstacle_aside))
       * vx \<lparr>vx = 3 / 5, vz = 4 / 5\<rparr> \<noteq> 0 \<and>
   heading_angle (avoided (position drone_at_origin) [obstacle_aside] \<lparr>vx = 3 / 5, vz = 4 / 5\<rparr>)
     \<noteq> heading_angle \<lparr>vx = 3 / 5, vz = 4 / 5\<rparr>"
proof -
  have h: "clear_of_boundary (position drone_at_origin)" "0 \<le> radius obstacle_ahead"
    "0.000001 < lookahead_dist (position drone_at_origin) \<lparr>vx = 1, vz = 0\<rparr> obstacle_ahead"
    "lookahead_dist (position drone_at_origin) \<lparr>vx = 1, vz = 0\<rparr> obstacle_ahead
       < radius obstacle_ahead + 1.8"
    by (simp_all add: origin_clear ahead_dist example_fields(1))
  have g: "radius obstacle_nearer = radius obstacle_ahead"
    "0.000001 < lookahead_dist (position drone_at_origin) \<lparr>vx = 1, vz = 0\<rparr> obstacle_nearer"
    "lookahead_dist (position drone_at_origin) \<lparr>vx = 1, vz = 0\<rparr> obstacle_nearer
       < lookahead_dist (position drone_at_origin) \<lparr>vx = 1, vz = 0\<rparr> obstacle_ahead"
    "length_sq \<lparr>vx = 1, vz = 0\<rparr> = 1"
    "pos obstacle_ahead =
       \<lparr>vx = px (position drone_at_origin) + 1 * vx \<lparr>vx = 1, vz = 0\<rparr>,
        vz = pz (position drone_at_origin) + 1 * vz \<lparr>vx = 1, vz = 0\<rparr>\<rparr>"
    by (simp_all add: ahead_dist example_fields(1-4) length_sq_def)
      (simp add: example_fields(5))
  have k: "0 \<le> radius obstacle_aside"
    "0.000001 < lookahead_dist (position drone_at_origin) \<lparr>vx = 3 / 5, vz = 4 / 5\<rparr> obstacle_aside"
    "lookahead_dist (position drone_at_origin) \<lparr>vx = 3 / 5, vz = 4 / 5\<rparr> obstacle_aside
       < radius obstacle_aside + 1.8"
    by (simp_all add: aside_dist aside_fields(1))
  have c: "(px (position drone_at_origin) + vx \<lparr>vx = 3 / 5, vz = 4 / 5\<rparr> * 0.1 - vx (pos obstacle_aside))
       * vz \<lparr>vx = 3 / 5, vz = 4 / 5\<rparr>
     - (pz (position drone_at_origin) + vz \<lparr>vx = 3 / 5, vz = 4 / 5\<rparr> * 0.1 - vz (pos obstacle_aside))
       * vx \<lparr>vx = 3 / 5, vz = 4 / 5\<rparr> \<noteq> 0"
    by (simp add: example_fields(5) aside_fields)
  have p: "steer_avoid (position drone_at_origin) \<lparr>vx = 1, vz = 0\<rparr> [obstacle_ahead]
      = \<lparr>px = - (19 / 28), py = 0, pz = 0\<rparr>"
    by (rule ahead_push)
  from obstacle_repulsion [OF h, of obstacle_nearer 1]
    obstacle_repulsion [OF h(1) k, of obstacle_nearer 1] h g k c p
  show ?thesis by (intro conjI) blast+
qed

text \<open>
  C7 as stated fails. The drone is at the origin with yaw 0 and hunts a target straight
  ahead; the obstacle of radius 1 at (1, 0) is straight ahead on its heading, 0.9 from the
  look-ahead point and so within the activation radius 2.8. The push is (-19/28, 0),
  against the desired direction (1, 0), and the desired direction after avoidance is
  (1, 0) again: the angle does not change.
\<close>

theorem obstacle_ahead_counterexample:
  "yaw drone_at_origin = 0 \<and>
   pos obstacle_ahead = \<lparr>vx = px (position drone_at_origin) + 1 * cos (yaw drone_at_origin),
                         vz = pz (position drone_at_origin) + 1 * sin (yaw drone_at_origin)\<rparr> \<and>
   0.000001 < lookahead_dist (position drone_at_origin) \<lparr>vx = 1, vz = 0\<rparr> obstacle_ahead \<and>
   lookahead_dist (position drone_at_origin) \<lparr>vx = 1, vz = 0\<rparr> obstacle_ahead
     < radius obstacle_ahead + 1.8 \<and>
   steer_avoid (position drone_at_origin) \<lparr>vx = 1, vz = 0\<rparr> [obstacle_ahead]
     = \<lparr>px = - (19 / 28), py = 0, pz = 0\<rparr> \<and>
   smoothed_seek_dir initial_search_state drone_at_origin (Some target_ahead) 0.1
     = \<lparr>vx = 1, vz = 0\<rparr> \<and>
   snd (steer initial_search_state drone_at_origin (Some target_ahead) [obstacle_ahead] 0.1)
     = \<lparr>vx = 1, vz = 0\<rparr> \<and>
   heading_angle
     (snd (steer initial_search_state drone_at_origin (Some target_ahead) [obstacle_ahead] 0.1))
     = heading_angle (smoothed_seek_dir initial_search_state drone_at_origin (Some target_ahead) 0.1)"
proof (intro conjI)
  show "yaw drone_at_origin = 0" by (rule example_fields)
  show "pos obstacle_ahead =
      \<lparr>vx = px (position drone_at_origin) + 1 * cos (yaw drone_at_origin),
       vz = pz (position drone_at_origin) + 1 * sin (yaw drone_at_origin)\<rparr>"
    by (simp add: example_fields)
  show "0.000001 < lookahead_dist (position drone_at_origin) \<lparr>vx = 1, vz = 0\<rparr> obstacle_ahead"
    by (simp add: ahead_dist)
  show "lookahead_dist (position drone_at_origin) \<lparr>vx = 1, vz = 0\<rparr> obstacle_ahead
      < radius obstacle_ahead + 1.8"
    by (simp add: ahead_dist example_fields(1))
  show "steer_avoid (position drone_at_origin) \<lparr>vx = 1, vz = 0\<rparr> [obstacle_ahead]
      = \<lparr>px = - (19 / 28), py = 0, pz = 0\<rparr>"
    by (rule ahead_push)
  show "smoothed_seek_dir initial_search_state drone_at_origin (Some target_ahead) 0.1
      = \<lparr>vx = 1, vz = 0\<rparr>"
    by (rule origin_smoothed)
  show "snd (steer initial_search_state drone_at_origin (Some target_ahead) [obstacle_ahead] 0.1)
      = \<lparr>vx = 1, vz = 0\<rparr>"
    by (simp only: steer_desired origin_smoothed ahead_avoided)
  then show "heading_angle
      (snd (steer initial_search_state drone_at_origin (Some target_ahead) [obstacle_ahead] 0.1))
      = heading_angle (smoothed_seek_dir initial_search_state drone_at_origin (Some target_ahead) 0.1)"
    by (simp only: origin_smoothed)
qed

end
